theory Spec2Isabelle
  imports Main "HOL-Library.Sublist"
begin

section \<open>The secret deployment executor of gcp-secrets\<close>

text \<open>
  This theory embeds \<^verbatim>\<open>packages/gcp-secrets/src/executors/deploy/deploy.impl.ts\<close>:
  the executor \<^verbatim>\<open>deployExecutor\<close>, the callback it maps over the secret files, and the
  helpers \<^verbatim>\<open>getCommandOptions\<close> and \<^verbatim>\<open>addLabelsIfNeeded\<close>.

  The executor works through collaborators that are imported from other modules
  (\<^verbatim>\<open>execCommand\<close>, \<^verbatim>\<open>buildCommand\<close>, \<^verbatim>\<open>getFileContent\<close>, \<^verbatim>\<open>storeFile\<close>,
  \<^verbatim>\<open>decryptFile\<close>, \<^verbatim>\<open>getFileName\<close>, \<^verbatim>\<open>getAllSecretFiles\<close>,
  \<^verbatim>\<open>isEncryptionKeySet\<close>). They are parameters of the model, collected in the record
  \<open>world\<close>: every call of a collaborator either returns a value or throws, and the
  model follows both branches. What the executor does to its surroundings is written
  down as a list of events, in the order the JavaScript performs them.
\<close>

subsection \<open>Strings: split, join, parseInt, JSON.stringify\<close>

text \<open>
  \<^verbatim>\<open>s.split(sep)\<close> for a non-empty separator: the pieces between the occurrences of
  \<open>sep\<close>, found from left to right without overlap. The counter \<open>k\<close> skips the rest
  of a separator that has just been matched; \<open>cur\<close> is the current piece, reversed.
\<close>

fun split_aux :: "string \<Rightarrow> nat \<Rightarrow> string \<Rightarrow> string \<Rightarrow> string list" where
  "split_aux sep k cur [] = [rev cur]"
| "split_aux sep k cur (c # cs) =
     (if 0 < k then split_aux sep (k - 1) cur cs
      else if prefix sep (c # cs) then rev cur # split_aux sep (length sep - 1) [] cs
      else split_aux sep 0 (c # cur) cs)"

definition split :: "string \<Rightarrow> string \<Rightarrow> string list" where
  "split sep s = split_aux sep 0 [] s"

text \<open>\<^verbatim>\<open>xs.join(sep)\<close>.\<close>

fun join :: "string \<Rightarrow> string list \<Rightarrow> string" where
  "join sep [] = []"
| "join sep [x] = x"
| "join sep (x # y # ys) = x @ sep @ join sep (y # ys)"

text \<open>
  A \<open>char\<close> of the model is a code unit of a JavaScript string below \<open>0x100\<close>; the
  strings of the model are the JavaScript strings made of such code units.

  The numbers the executor computes with: \<^verbatim>\<open>parseInt\<close> yields NaN, an infinity, or a
  double that is an integer, and the subtraction of 1 stays among these. Every integer
  up to $2^{53}$ in absolute value is a double; a larger one is rounded to the nearest
  integer with 53 significant bits, to the even one of two nearest, and to an infinity
  from $2^{1024}$ on. \<open>9007199254740992\<close> is $2^{53}$; \<open>roundToDouble\<close> is applied above
  it only.
\<close>

datatype number = NaN | Finite int | PosInfinity | NegInfinity

function bitLength :: "int \<Rightarrow> nat" where
  "bitLength n = (if n \<le> 0 then 0 else Suc (bitLength (n div 2)))"
  by pat_completeness auto
termination
  by (relation "measure nat") auto

definition roundToDouble :: "int \<Rightarrow> int" where
  "roundToDouble n =
     (let e = bitLength n - 53; q = n div 2 ^ e; r = n mod 2 ^ e; half = 2 ^ (e - 1)
      in if half < r \<or> (r = half \<and> odd q) then (q + 1) * 2 ^ e else q * 2 ^ e)"

definition toNumber :: "int \<Rightarrow> number" where
  "toNumber i =
     (if \<bar>i\<bar> \<le> 9007199254740992 then Finite i
      else (let m = roundToDouble \<bar>i\<bar>
            in if 2 ^ 1024 \<le> m then (if i < 0 then NegInfinity else PosInfinity)
               else Finite (if i < 0 then - m else m)))"

text \<open>\<^verbatim>\<open>x - 1\<close> on these numbers: the exact difference, rounded.\<close>

fun minusOne :: "number \<Rightarrow> number" where
  "minusOne NaN = NaN"
| "minusOne (Finite i) = toNumber (i - 1)"
| "minusOne PosInfinity = PosInfinity"
| "minusOne NegInfinity = NegInfinity"

text \<open>
  \<^verbatim>\<open>parseInt(s, 10)\<close>: leading white space is skipped, one sign is read, then the longest
  run of decimal digits, whose value is converted to a number; without a digit the
  result is NaN. The white space of JavaScript below \<open>0x100\<close> is the tab, the line feed,
  the vertical tab, the form feed, the carriage return, the space and the no-break
  space; the other white space characters are code units from \<open>0x1680\<close> on. (Beyond 20
  significant digits the language leaves the value to the implementation; the model
  takes the digits as written, as the engines do.)
\<close>

definition isWhiteSpace :: "char \<Rightarrow> bool" where
  "isWhiteSpace c =
     (c \<in> set [CHR 0x09, CHR 0x0A, CHR 0x0B, CHR 0x0C, CHR 0x0D, CHR 0x20, CHR 0xA0])"

definition isDigit :: "char \<Rightarrow> bool" where
  "isDigit c = (c \<in> set ''0123456789'')"

definition digitValue :: "char \<Rightarrow> int" where
  "digitValue c = int (of_char c) - 48"

definition digitsValue :: "string \<Rightarrow> int" where
  "digitsValue ds = foldl (\<lambda>acc d. 10 * acc + digitValue d) 0 ds"

definition parseDigits :: "string \<Rightarrow> int option" where
  "parseDigits s =
     (let ds = takeWhile isDigit s in if ds = [] then None else Some (digitsValue ds))"

definition signedNumber :: "bool \<Rightarrow> int option \<Rightarrow> number" where
  "signedNumber negative v =
     (case v of None \<Rightarrow> NaN | Some n \<Rightarrow> toNumber (if negative then - n else n))"

definition parseInt :: "string \<Rightarrow> number" where
  "parseInt s =
     (case dropWhile isWhiteSpace s of
        [] \<Rightarrow> NaN
      | c # cs \<Rightarrow>
          if c = CHR ''-'' then signedNumber True (parseDigits cs)
          else if c = CHR ''+'' then signedNumber False (parseDigits cs)
          else signedNumber False (parseDigits (c # cs)))"

text \<open>
  \<^verbatim>\<open>JSON.stringify\<close> of an array of strings: the quoted elements, separated by
  commas, in brackets. Inside the quotes the double quote and the backslash are
  escaped with a backslash, the control characters with their short escape or as
  \<^verbatim>\<open>\u00XX\<close>.
\<close>

definition hexDigit :: "nat \<Rightarrow> char" where
  "hexDigit n = ''0123456789abcdef'' ! (n mod 16)"

definition escapeChar :: "char \<Rightarrow> string" where
  "escapeChar c =
     (if c = CHR 0x22 then [CHR 0x5C, CHR 0x22]
      else if c = CHR 0x5C then [CHR 0x5C, CHR 0x5C]
      else if c = CHR 0x08 then [CHR 0x5C, CHR ''b'']
      else if c = CHR 0x0C then [CHR 0x5C, CHR ''f'']
      else if c = CHR 0x0A then [CHR 0x5C, CHR ''n'']
      else if c = CHR 0x0D then [CHR 0x5C, CHR ''r'']
      else if c = CHR 0x09 then [CHR 0x5C, CHR ''t'']
      else if (of_char c :: nat) < 32
        then [CHR 0x5C, CHR ''u'', CHR ''0'', CHR ''0'',
              hexDigit (of_char c div 16), hexDigit (of_char c)]
      else [c])"

definition quoteJSON :: "string \<Rightarrow> string" where
  "quoteJSON s = CHR 0x22 # concat (map escapeChar s) @ [CHR 0x22]"

definition JSON_stringify :: "string list \<Rightarrow> string" where
  "JSON_stringify xs = ''['' @ join '','' (map quoteJSON xs) @ '']''"

text \<open>A JavaScript value of type \<^verbatim>\<open>string | undefined\<close> is truthy when it is a non-empty string.\<close>

definition truthy :: "string option \<Rightarrow> bool" where
  "truthy v = (case v of None \<Rightarrow> False | Some s \<Rightarrow> s \<noteq> [])"

subsection \<open>The data of the executor\<close>

text \<open>\<^verbatim>\<open>DeploySchema\<close>, \<^verbatim>\<open>ExistingSecret\<close> and \<^verbatim>\<open>ExistingServiceAccounts\<close> as declared.
  The labels of a remote secret are a JavaScript object: its keys in the order of
  \<^verbatim>\<open>Object.keys\<close>, each with its value.\<close>

record DeploySchema =
  project :: "string option"
  secret :: "string option"

record ExistingSecret =
  name :: string
  labels :: "(string \<times> string) list option"

record binding =
  members :: "string list"
  role :: string

record ExistingServiceAccounts =
  bindings :: "binding list option"

text \<open>
  The content of a secret file, as far as the executor reads it: the fields of
  \<^verbatim>\<open>__gcp_metadata\<close> and the rest of the document. \<^verbatim>\<open>labels\<close> is the string array
  that \<^verbatim>\<open>addLabelsIfNeeded\<close> declares; \<^verbatim>\<open>serviceAccounts\<close> is \<open>None\<close> when the field
  is absent or not an array; \<^verbatim>\<open>onUpdateBehavior\<close> is \<open>None\<close> when absent.
\<close>

record metadata =
  status :: string
  labels :: "string list"
  serviceAccounts :: "string list option"
  onUpdateBehavior :: "string option"

record file_content =
  payload :: string
  gcp_metadata :: metadata

type_synonym exn = string

text \<open>
  The calls of \<^verbatim>\<open>execCommand(buildCommand([...]))\<close>, one constructor for each call in
  the source, with the values the source puts into the command line. A result of
  \<^verbatim>\<open>buildCommand\<close> is kept as the list of its parts that are not falsy.
\<close>

datatype command =
    SecretsList "string list"
      \<comment> \<open>\<^verbatim>\<open>gcloud secrets list --format=json OPTIONS\<close>\<close>
  | SecretsUpdate string "string list" "string list"
      \<comment> \<open>\<^verbatim>\<open>gcloud secrets update NAME LABELS OPTIONS\<close>\<close>
  | VersionsAdd string string "string list"
      \<comment> \<open>\<^verbatim>\<open>gcloud secrets versions add NAME --data-file="FILE" --format=json OPTIONS\<close>\<close>
  | VersionsRetire string number string "string list"
      \<comment> \<open>\<^verbatim>\<open>gcloud secrets versions BEHAVIOR PREVIOUS --secret=NAME --quiet OPTIONS\<close>;
          \<open>PREVIOUS\<close> is kept as the number, not as its text\<close>
  | SecretsCreate string string "string list" "string list"
      \<comment> \<open>\<^verbatim>\<open>gcloud secrets create NAME --data-file="FILE" --replication-policy=automatic LABELS OPTIONS\<close>\<close>
  | GetIamPolicy string "string list"
      \<comment> \<open>\<^verbatim>\<open>gcloud secrets get-iam-policy NAME --format=json OPTIONS\<close>\<close>
  | AddIamPolicyBinding string string "string list"
      \<comment> \<open>\<^verbatim>\<open>gcloud secrets add-iam-policy-binding NAME --member='MEMBER' --role='roles/secretmanager.secretAccessor' OPTIONS\<close>\<close>
  | RemoveIamPolicyBinding string string "string list"
      \<comment> \<open>\<^verbatim>\<open>gcloud secrets remove-iam-policy-binding NAME --member='MEMBER' --role='roles/secretmanager.secretAccessor' OPTIONS\<close>\<close>

text \<open>The lines written through \<^verbatim>\<open>logger\<close>, with the values they interpolate.\<close>

datatype log_entry =
    InfoUpdatingLabels string
  | InfoRetiring string string
  | WarnInvalidBehavior string
  | InfoCreating string string
  | InfoAdd "string list" string
  | InfoRemove "string list" string
  | ErrorDecrypt exn

datatype event =
    Exec command
  | StoreFile string file_content
  | Log log_entry

text \<open>
  The collaborators. \<^verbatim>\<open>execCommand\<close> is generic in the type of its result; the model
  has one field for each type the source instantiates it with, and a reply of another
  shape is part of the throwing outcome (the source would raise a TypeError on it in
  the same expression). A reply depends on the command only: within one run that is
  every behaviour in which no command line is issued twice. \<^verbatim>\<open>decryptFile\<close> is
  taken to return a new document and to leave its argument as it is.
\<close>

record world =
  isEncryptionKeySet :: bool
  getAllSecretFiles :: "string \<Rightarrow> exn + string list"
  getFileName :: "string \<Rightarrow> string"
  decryptFile :: "file_content \<Rightarrow> exn + file_content"
  execSecrets :: "command \<Rightarrow> exn + ExistingSecret list"
  execVersion :: "command \<Rightarrow> exn + string"
  execPolicy :: "command \<Rightarrow> exn + ExistingServiceAccounts option"
  execStatus :: "command \<Rightarrow> exn + bool"

text \<open>The exception that a command throws in a world, if it throws: each command is
  answered by the field of the \<^verbatim>\<open>execCommand\<close> call that issues it.\<close>

definition errorOf :: "exn + 'a \<Rightarrow> exn option" where
  "errorOf r = (case r of Inl e \<Rightarrow> Some e | Inr v \<Rightarrow> None)"

fun thrown :: "world \<Rightarrow> command \<Rightarrow> exn option" where
  "thrown w (SecretsList os) = errorOf (execSecrets w (SecretsList os))"
| "thrown w (VersionsAdd n f os) = errorOf (execVersion w (VersionsAdd n f os))"
| "thrown w (GetIamPolicy n os) = errorOf (execPolicy w (GetIamPolicy n os))"
| "thrown w c = errorOf (execStatus w c)"

text \<open>The files on disk: \<^verbatim>\<open>getFileContent\<close> reads them, \<^verbatim>\<open>storeFile\<close> overwrites them.\<close>

type_synonym disk = "string \<rightharpoonup> file_content"

fun applyEvent :: "disk \<Rightarrow> event \<Rightarrow> disk" where
  "applyEvent d (StoreFile file content) = d(file \<mapsto> content)"
| "applyEvent d _ = d"

definition applyEvents :: "event list \<Rightarrow> disk \<Rightarrow> disk" where
  "applyEvents es d = foldl applyEvent d es"

subsection \<open>Sequencing with exceptions\<close>

text \<open>
  A piece of the executor yields its result, or the exception that left it, together
  with the events it performed up to there. \<open>andThen\<close> is the semicolon: the second
  piece runs only when the first one returned.
\<close>

type_synonym 'a step = "(exn + 'a) \<times> event list"

definition andThen :: "'a step \<Rightarrow> ('a \<Rightarrow> 'b step) \<Rightarrow> 'b step" where
  "andThen m f =
     (case m of
        (Inl e, es) \<Rightarrow> (Inl e, es)
      | (Inr a, es) \<Rightarrow> (case f a of (r, es') \<Rightarrow> (r, es @ es')))"

definition ret :: "'a \<Rightarrow> 'a step" where
  "ret a = (Inr a, [])"

definition throw :: "exn \<Rightarrow> 'a step" where
  "throw e = (Inl e, [])"

definition logger :: "log_entry \<Rightarrow> unit step" where
  "logger l = (Inr (), [Log l])"

definition storeFile :: "string \<Rightarrow> file_content \<Rightarrow> unit step" where
  "storeFile file content = (Inr (), [StoreFile file content])"

definition execCommand :: "(command \<Rightarrow> exn + 'a) \<Rightarrow> command \<Rightarrow> 'a step" where
  "execCommand reply c = (reply c, [Exec c])"

fun forEach :: "('a \<Rightarrow> unit step) \<Rightarrow> 'a list \<Rightarrow> unit step" where
  "forEach f [] = ret ()"
| "forEach f (x # xs) = andThen (f x) (\<lambda>_. forEach f xs)"

subsection \<open>getCommandOptions and addLabelsIfNeeded\<close>

definition getCommandOptions :: "DeploySchema \<Rightarrow> string list" where
  "getCommandOptions options =
     (if truthy (project options) then [''--project='' @ the (project options)] else [])"

definition addLabelsIfNeeded :: "string list \<Rightarrow> bool \<Rightarrow> string list" where
  "addLabelsIfNeeded labelList isCreating =
     (if 0 < length labelList then
        (if isCreating then [''--labels='' @ join '','' labelList]
         else [''--clear-labels'', ''--update-labels='' @ join '','' labelList])
      else [''--clear-labels''])"

subsection \<open>The callback of deployExecutor, in the order of the source\<close>

text \<open>Lines 55 to 59: the name of the secret is the file name without its last extension.\<close>

definition secretNameOf :: "string \<Rightarrow> string" where
  "secretNameOf fileName = join ''.'' (butlast (split ''.'' fileName))"

text \<open>Lines 82 to 86: the remote labels as \<^verbatim>\<open>key=value\<close> strings, in the order of the keys.\<close>

definition existingLabels :: "ExistingSecret \<Rightarrow> string list" where
  "existingLabels secretExists =
     map (\<lambda>(labelKey, v). labelKey @ ''='' @ v)
       (case ExistingSecret.labels secretExists of None \<Rightarrow> [] | Some ls \<Rightarrow> ls)"

text \<open>Lines 88 to 99: the labels are updated when the two serialisations differ.\<close>

definition updateLabels :: "world \<Rightarrow> DeploySchema \<Rightarrow> ExistingSecret \<Rightarrow> string \<Rightarrow> file_content \<Rightarrow> unit step" where
  "updateLabels w options secretExists secretName fileContent =
     (if JSON_stringify (existingLabels secretExists)
           \<noteq> JSON_stringify (metadata.labels (gcp_metadata fileContent))
      then andThen (logger (InfoUpdatingLabels secretName)) (\<lambda>_.
           andThen (execCommand (execStatus w)
                      (SecretsUpdate secretName
                         (addLabelsIfNeeded (metadata.labels (gcp_metadata fileContent)) False)
                         (getCommandOptions options))) (\<lambda>_.
           ret ()))
      else ret ())"

text \<open>Lines 101 to 113: the new version, the part of the reply's name after \<^verbatim>\<open>/versions/\<close>.\<close>

definition addVersion :: "world \<Rightarrow> DeploySchema \<Rightarrow> string \<Rightarrow> string \<Rightarrow> string step" where
  "addVersion w options secretName file =
     andThen (execCommand (execVersion w)
                (VersionsAdd secretName file (getCommandOptions options))) (\<lambda>nm.
     ret (last (split ''/versions/'' nm)))"

text \<open>Line 115: the behaviour on update, \<^verbatim>\<open>destroy\<close> when the field is absent or empty.\<close>

definition updateBehaviorOf :: "file_content \<Rightarrow> string" where
  "updateBehaviorOf fileContent =
     (if truthy (onUpdateBehavior (gcp_metadata fileContent))
      then the (onUpdateBehavior (gcp_metadata fileContent)) else ''destroy'')"

text \<open>Lines 117 to 134: what happens to the previous version.\<close>

definition retirePrevious :: "world \<Rightarrow> DeploySchema \<Rightarrow> string \<Rightarrow> file_content \<Rightarrow> string \<Rightarrow> unit step" where
  "retirePrevious w options secretName fileContent newVersion =
     (let updateBehavior = updateBehaviorOf fileContent
      in if updateBehavior \<noteq> ''none'' then
           (if updateBehavior \<in> set [''destroy'', ''disable''] then
              (let previousVersion = minusOne (parseInt newVersion)
               in andThen (logger (InfoRetiring updateBehavior secretName)) (\<lambda>_.
                  andThen (execCommand (execStatus w)
                             (VersionsRetire updateBehavior previousVersion secretName
                                (getCommandOptions options))) (\<lambda>_.
                  ret ())))
            else logger (WarnInvalidBehavior updateBehavior))
         else ret ())"

text \<open>Lines 81 to 136: the secret exists.\<close>

definition updateSecret :: "world \<Rightarrow> DeploySchema \<Rightarrow> ExistingSecret \<Rightarrow> string \<Rightarrow> string \<Rightarrow> file_content \<Rightarrow> bool step" where
  "updateSecret w options secretExists secretName file fileContent =
     andThen (updateLabels w options secretExists secretName fileContent) (\<lambda>_.
     andThen (addVersion w options secretName file) (\<lambda>newVersion.
     andThen (retirePrevious w options secretName fileContent newVersion) (\<lambda>_.
     ret True)))"

text \<open>Lines 137 to 154: the secret does not exist.\<close>

definition createSecret :: "world \<Rightarrow> DeploySchema \<Rightarrow> string \<Rightarrow> string \<Rightarrow> string \<Rightarrow> file_content \<Rightarrow> bool step" where
  "createSecret w options secretName fileName file fileContent =
     andThen (logger (InfoCreating secretName fileName)) (\<lambda>_.
     andThen (execCommand (execStatus w)
                (SecretsCreate secretName file
                   (addLabelsIfNeeded (metadata.labels (gcp_metadata fileContent)) True)
                   (getCommandOptions options))) (\<lambda>commandSuccess.
     ret commandSuccess))"

text \<open>Lines 75 to 154.\<close>

definition reconcile :: "world \<Rightarrow> DeploySchema \<Rightarrow> ExistingSecret list \<Rightarrow> string \<Rightarrow> string \<Rightarrow> string \<Rightarrow> file_content \<Rightarrow> bool step" where
  "reconcile w options existingSecrets secretName fileName file fileContent =
     (case find (\<lambda>secret. name secret = secretName) existingSecrets of
        Some secretExists \<Rightarrow> updateSecret w options secretExists secretName file fileContent
      | None \<Rightarrow> createSecret w options secretName fileName file fileContent)"

text \<open>Lines 177 to 183: the members bound to the accessor role, and the two differences.\<close>

definition existingServiceAccounts :: "ExistingServiceAccounts option \<Rightarrow> string list" where
  "existingServiceAccounts policy =
     (case policy of
        None \<Rightarrow> []
      | Some p \<Rightarrow>
          (case bindings p of
             None \<Rightarrow> []
           | Some bs \<Rightarrow>
               (case find (\<lambda>b. role b = ''roles/secretmanager.secretAccessor'') bs of
                  None \<Rightarrow> []
                | Some b \<Rightarrow> members b)))"

definition serviceAccountsToDelete :: "string list \<Rightarrow> string list \<Rightarrow> string list" where
  "serviceAccountsToDelete allowedServiceAccounts existing =
     filter (\<lambda>account. account \<notin> set allowedServiceAccounts) existing"

definition serviceAccountsToAdd :: "string list \<Rightarrow> string list \<Rightarrow> string list" where
  "serviceAccountsToAdd allowedServiceAccounts existing =
     filter (\<lambda>account. account \<notin> set existing) allowedServiceAccounts"

text \<open>Lines 185 to 209: the grants, then the revocations.\<close>

definition addServiceAccounts :: "world \<Rightarrow> DeploySchema \<Rightarrow> string \<Rightarrow> string list \<Rightarrow> unit step" where
  "addServiceAccounts w options secretName toAdd =
     (if 0 < length toAdd then
        andThen (logger (InfoAdd toAdd secretName)) (\<lambda>_.
        forEach (\<lambda>newMember.
          andThen (execCommand (execStatus w)
                     (AddIamPolicyBinding secretName newMember (getCommandOptions options)))
            (\<lambda>_. ret ())) toAdd)
      else ret ())"

definition deleteServiceAccounts :: "world \<Rightarrow> DeploySchema \<Rightarrow> string \<Rightarrow> string list \<Rightarrow> unit step" where
  "deleteServiceAccounts w options secretName toDelete =
     (if 0 < length toDelete then
        andThen (logger (InfoRemove toDelete secretName)) (\<lambda>_.
        forEach (\<lambda>deleteMember.
          andThen (execCommand (execStatus w)
                     (RemoveIamPolicyBinding secretName deleteMember (getCommandOptions options)))
            (\<lambda>_. ret ())) toDelete)
      else ret ())"

text \<open>Lines 161 to 210.\<close>

definition manageServiceAccounts :: "world \<Rightarrow> DeploySchema \<Rightarrow> string \<Rightarrow> file_content \<Rightarrow> unit step" where
  "manageServiceAccounts w options secretName fileContent =
     (case serviceAccounts (gcp_metadata fileContent) of
        None \<Rightarrow> ret ()
      | Some allowedServiceAccounts \<Rightarrow>
          andThen (execCommand (execPolicy w)
                     (GetIamPolicy secretName (getCommandOptions options))) (\<lambda>policy.
          andThen (addServiceAccounts w options secretName
                     (serviceAccountsToAdd allowedServiceAccounts (existingServiceAccounts policy))) (\<lambda>_.
          deleteServiceAccounts w options secretName
            (serviceAccountsToDelete allowedServiceAccounts (existingServiceAccounts policy)))))"

text \<open>Lines 66 to 73: the file is read, and stored decrypted when it is encrypted.
  \<^verbatim>\<open>getFileContent\<close> throws on a file that is not there.\<close>

definition getFileContent :: "disk \<Rightarrow> string \<Rightarrow> file_content step" where
  "getFileContent d file = (case d file of None \<Rightarrow> throw ''ENOENT'' | Some content \<Rightarrow> ret content)"

definition isFileEncrypted :: "file_content \<Rightarrow> bool" where
  "isFileEncrypted fileContent = (status (gcp_metadata fileContent) = ''encrypted'')"

definition decryptIfNeeded :: "world \<Rightarrow> string \<Rightarrow> file_content \<Rightarrow> unit step" where
  "decryptIfNeeded w file fileContent =
     (if isFileEncrypted fileContent then
        (case decryptFile w fileContent of
           Inl e \<Rightarrow> throw e
         | Inr decrypted \<Rightarrow> storeFile file decrypted)
      else ret ())"

text \<open>Lines 156 to 159.\<close>

definition storeEncryptedAgain :: "string \<Rightarrow> file_content \<Rightarrow> unit step" where
  "storeEncryptedAgain file fileContent =
     (if isFileEncrypted fileContent then storeFile file fileContent else ret ())"

text \<open>Line 62: the file is left out by the option \<^verbatim>\<open>secret\<close>.\<close>

definition filteredOut :: "world \<Rightarrow> DeploySchema \<Rightarrow> string \<Rightarrow> bool" where
  "filteredOut w options file =
     (truthy (secret options) \<and> secret options \<noteq> Some (secretNameOf (getFileName w file)))"

text \<open>Lines 54 to 213: the callback, one call for each file. It has no handler of its
  own; an exception leaves it as the rejection of its promise, here \<open>Inl\<close>.\<close>

definition deployFile :: "world \<Rightarrow> DeploySchema \<Rightarrow> ExistingSecret list \<Rightarrow> disk \<Rightarrow> string \<Rightarrow> bool step" where
  "deployFile w options existingSecrets d file =
     (let fileName = getFileName w file;
          secretName = secretNameOf fileName
      in if filteredOut w options file then ret True
         else
           andThen (getFileContent d file) (\<lambda>fileContent.
           andThen (decryptIfNeeded w file fileContent) (\<lambda>_.
           andThen (reconcile w options existingSecrets secretName fileName file fileContent) (\<lambda>success.
           andThen (storeEncryptedAgain file fileContent) (\<lambda>_.
           andThen (manageServiceAccounts w options secretName fileContent) (\<lambda>_.
           ret success))))))"

subsection \<open>deployExecutor\<close>

text \<open>
  \<^verbatim>\<open>files.map(async (file) => ...)\<close>: the callback has no \<^verbatim>\<open>await\<close>, so each call runs
  to its end, or to its exception, before the next one starts, and each sees the disk
  as the calls before it left it. The results are the settled promises.
\<close>

fun mapFiles :: "world \<Rightarrow> DeploySchema \<Rightarrow> ExistingSecret list \<Rightarrow> disk \<Rightarrow> string list \<Rightarrow> (exn + bool) list \<times> event list" where
  "mapFiles w options existingSecrets d [] = ([], [])"
| "mapFiles w options existingSecrets d (file # files) =
     (case deployFile w options existingSecrets d file of
        (r, es) \<Rightarrow>
          (case mapFiles w options existingSecrets (applyEvents es d) files of
             (rs, es') \<Rightarrow> (r # rs, es @ es')))"

text \<open>\<^verbatim>\<open>await Promise.all(...)\<close>: the values when every promise is fulfilled, otherwise the
  first rejection is thrown.\<close>

definition promiseAll :: "(exn + bool) list \<Rightarrow> exn + bool list" where
  "promiseAll rs =
     (case find isl rs of
        Some r \<Rightarrow> Inl (projl r)
      | None \<Rightarrow> Inr (map projr rs))"

text \<open>Lines 37 to 50: the listing, each name cut down to the part after \<^verbatim>\<open>/secrets/\<close>.\<close>

definition listSecrets :: "world \<Rightarrow> DeploySchema \<Rightarrow> ExistingSecret list step" where
  "listSecrets w options =
     andThen (execCommand (execSecrets w) (SecretsList (getCommandOptions options))) (\<lambda>secrets.
     ret (map (\<lambda>secret. secret\<lparr>name := last (split ''/secrets/'' (name secret))\<rparr>) secrets))"

text \<open>Lines 36 to 217, the body of \<^verbatim>\<open>try\<close>.\<close>

definition deployAll :: "world \<Rightarrow> DeploySchema \<Rightarrow> string \<Rightarrow> disk \<Rightarrow> bool step" where
  "deployAll w options sourceRoot d =
     andThen (listSecrets w options) (\<lambda>existingSecrets.
       (case getAllSecretFiles w sourceRoot of
          Inl e \<Rightarrow> throw e
        | Inr files \<Rightarrow>
            (case mapFiles w options existingSecrets d files of
               (rs, es) \<Rightarrow>
                 (case promiseAll rs of
                    Inl e \<Rightarrow> (Inl e, es)
                  | Inr secretsCreated \<Rightarrow>
                      (Inr (length (filter (\<lambda>b. b) secretsCreated) = length files), es)))))"

text \<open>Lines 29 to 227: the result is the field \<^verbatim>\<open>success\<close>, with the events of the run.\<close>

definition deployExecutor :: "world \<Rightarrow> DeploySchema \<Rightarrow> string \<Rightarrow> disk \<Rightarrow> bool \<times> event list" where
  "deployExecutor w options sourceRoot d =
     (if isEncryptionKeySet w then
        (case deployAll w options sourceRoot d of
           (Inr success, es) \<Rightarrow> (success, es)
         | (Inl err, es) \<Rightarrow> (False, es @ [Log (ErrorDecrypt err)]))
      else (True, []))"

subsection \<open>Reading the events of a run\<close>

text \<open>The commands among the events, and the files written, each in the order of the run.\<close>

fun commands :: "event list \<Rightarrow> command list" where
  "commands [] = []"
| "commands (Exec c # es) = c # commands es"
| "commands (StoreFile file content # es) = commands es"
| "commands (Log l # es) = commands es"

fun stores :: "event list \<Rightarrow> (string \<times> file_content) list" where
  "stores [] = []"
| "stores (StoreFile file content # es) = (file, content) # stores es"
| "stores (Exec c # es) = stores es"
| "stores (Log l # es) = stores es"

text \<open>The kinds of command: the four operations on the secret itself, and the three
  on its IAM policy.\<close>

fun isCreate :: "command \<Rightarrow> bool" where
  "isCreate (SecretsCreate n f ls os) = True"
| "isCreate _ = False"

fun isUpdateLabels :: "command \<Rightarrow> bool" where
  "isUpdateLabels (SecretsUpdate n ls os) = True"
| "isUpdateLabels _ = False"

fun isAddVersion :: "command \<Rightarrow> bool" where
  "isAddVersion (VersionsAdd n f os) = True"
| "isAddVersion _ = False"

fun isRetire :: "command \<Rightarrow> bool" where
  "isRetire (VersionsRetire b v n os) = True"
| "isRetire _ = False"

fun isIam :: "command \<Rightarrow> bool" where
  "isIam (GetIamPolicy n os) = True"
| "isIam (AddIamPolicyBinding n m os) = True"
| "isIam (RemoveIamPolicyBinding n m os) = True"
| "isIam _ = False"

fun isWarning :: "event \<Rightarrow> bool" where
  "isWarning (Log (WarnInvalidBehavior b)) = True"
| "isWarning _ = False"

definition isSecretOp :: "command \<Rightarrow> bool" where
  "isSecretOp c = (isCreate c \<or> isUpdateLabels c \<or> isAddVersion c \<or> isRetire c)"

subsection \<open>A workspace to run the executor on\<close>

text \<open>
  One secret file \<^verbatim>\<open>db.json\<close>, encrypted on disk, which declares two labels and two
  service accounts; a remote secret \<^verbatim>\<open>db\<close> with the same two labels under the keys
  \<^verbatim>\<open>b\<close>, \<^verbatim>\<open>a\<close>, whose accessors are \<^verbatim>\<open>Y\<close> and \<^verbatim>\<open>Z\<close>; every command succeeds.
\<close>

definition dbEncrypted :: file_content where
  "dbEncrypted =
     \<lparr>payload = ''CIPHERTEXT'',
      gcp_metadata = \<lparr>status = ''encrypted'', labels = [''a=1'', ''b=2''],
                      serviceAccounts = Some [''X'', ''Y''], onUpdateBehavior = None\<rparr>\<rparr>"

definition dbDecrypted :: file_content where
  "dbDecrypted =
     \<lparr>payload = ''PLAINTEXT'',
      gcp_metadata = \<lparr>status = ''decrypted'', labels = [''a=1'', ''b=2''],
                      serviceAccounts = Some [''X'', ''Y''], onUpdateBehavior = None\<rparr>\<rparr>"

definition dbRemote :: ExistingSecret where
  "dbRemote = \<lparr>name = ''db'', labels = Some [(''b'', ''2''), (''a'', ''1'')]\<rparr>"

definition dbPolicy :: ExistingServiceAccounts where
  "dbPolicy =
     \<lparr>bindings = Some [\<lparr>members = [''Y'', ''Z''], role = ''roles/secretmanager.secretAccessor''\<rparr>]\<rparr>"

definition exampleWorld :: world where
  "exampleWorld =
     \<lparr>isEncryptionKeySet = True,
      getAllSecretFiles = (\<lambda>sourceRoot. Inr [''db.json'']),
      getFileName = (\<lambda>file. file),
      decryptFile = (\<lambda>fileContent. Inr dbDecrypted),
      execSecrets = (\<lambda>c. Inr [\<lparr>name = ''projects/1/secrets/db'',
                                  labels = Some [(''b'', ''2''), (''a'', ''1'')]\<rparr>]),
      execVersion = (\<lambda>c. Inr ''projects/1/secrets/db/versions/7''),
      execPolicy = (\<lambda>c. Inr (Some dbPolicy)),
      execStatus = (\<lambda>c. Inr True)\<rparr>"

definition exampleOptions :: DeploySchema where
  "exampleOptions = \<lparr>project = None, secret = None\<rparr>"

definition exampleDisk :: disk where
  "exampleDisk = [''db.json'' \<mapsto> dbEncrypted]"

text \<open>The same workspace when \<^verbatim>\<open>gcloud secrets versions add\<close> fails.\<close>

definition versionFails :: world where
  "versionFails = exampleWorld\<lparr>execVersion := (\<lambda>c. Inl ''versions add failed'')\<rparr>"

text \<open>The same workspace when no secret exists remotely.\<close>

definition nothingRemote :: world where
  "nothingRemote = exampleWorld\<lparr>execSecrets := (\<lambda>c. Inr [])\<rparr>"

text \<open>Two files, \<^verbatim>\<open>db.json\<close> and \<^verbatim>\<open>api.json\<close>, when \<^verbatim>\<open>gcloud secrets versions add\<close>
  fails: \<^verbatim>\<open>db\<close> exists remotely, \<^verbatim>\<open>api\<close> does not.\<close>

definition versionFailsTwoFiles :: world where
  "versionFailsTwoFiles =
     versionFails\<lparr>getAllSecretFiles := (\<lambda>sourceRoot. Inr [''db.json'', ''api.json''])\<rparr>"

text \<open>The example workspace when the policy of \<^verbatim>\<open>db\<close> has two bindings of the accessor
  role, the first with the member \<^verbatim>\<open>Y\<close>, the second with the member \<^verbatim>\<open>Z\<close>.\<close>

definition twoBindingsPolicy :: ExistingServiceAccounts where
  "twoBindingsPolicy =
     \<lparr>bindings = Some [\<lparr>members = [''Y''], role = ''roles/secretmanager.secretAccessor''\<rparr>,
                       \<lparr>members = [''Z''], role = ''roles/secretmanager.secretAccessor''\<rparr>]\<rparr>"

definition twoBindings :: world where
  "twoBindings = exampleWorld\<lparr>execPolicy := (\<lambda>c. Inr (Some twoBindingsPolicy))\<rparr>"

definition apiPlain :: file_content where
  "apiPlain =
     \<lparr>payload = ''api key'',
      gcp_metadata = \<lparr>status = ''decrypted'', labels = [],
                      serviceAccounts = None, onUpdateBehavior = Some ''keep''\<rparr>\<rparr>"

text \<open>The file \<^verbatim>\<open>api.json\<close> with another \<^verbatim>\<open>onUpdateBehavior\<close>, alone on disk.\<close>

definition apiWith :: "string \<Rightarrow> file_content" where
  "apiWith b = apiPlain\<lparr>gcp_metadata := (gcp_metadata apiPlain)\<lparr>onUpdateBehavior := Some b\<rparr>\<rparr>"

definition apiDisk :: "string \<Rightarrow> disk" where
  "apiDisk b = [''api.json'' \<mapsto> apiWith b]"

definition apiRemote :: ExistingSecret where
  "apiRemote = \<lparr>name = ''api'', labels = None\<rparr>"

definition dbRemoteSameOrder :: ExistingSecret where
  "dbRemoteSameOrder = \<lparr>name = ''db'', labels = Some [(''a'', ''1''), (''b'', ''2'')]\<rparr>"

text \<open>The option \<^verbatim>\<open>secret\<close> naming a secret that no file declares.\<close>

definition otherSecretOnly :: DeploySchema where
  "otherSecretOnly = \<lparr>project = None, secret = Some ''other''\<rparr>"

definition twoFiles :: disk where
  "twoFiles = [''db.json'' \<mapsto> dbEncrypted, ''api.json'' \<mapsto> apiPlain]"

section \<open>Facts about the pieces of the executor\<close>

declare bitLength.simps [simp del]


subsection \<open>JSON.stringify tells two arrays of strings apart\<close>

lemma hexDigit_inj: "m < 16 \<Longrightarrow> n < 16 \<Longrightarrow> hexDigit m = hexDigit n \<Longrightarrow> m = n"
proof -
  assume a: "m < 16" "n < 16" "hexDigit m = hexDigit n"
  have d: "distinct ''0123456789abcdef''" by simp
  have l: "length ''0123456789abcdef'' = 16" by simp
  from a have "''0123456789abcdef'' ! m = ''0123456789abcdef'' ! n"
    by (simp add: hexDigit_def)
  with d l a show ?thesis
    by (metis nth_eq_iff_index_eq)
qed

lemma hex_pair_inj:
  fixes m n :: nat
  assumes "m < 32" "n < 32" "hexDigit (m div 16) = hexDigit (n div 16)" "hexDigit m = hexDigit n"
  shows "m = n"
proof -
  have "m div 16 < 16" "n div 16 < 16" using assms by auto
  then have 1: "m div 16 = n div 16" using assms hexDigit_inj by blast
  have "hexDigit (m mod 16) = hexDigit (n mod 16)" using assms by (simp add: hexDigit_def)
  then have 2: "m mod 16 = n mod 16" using hexDigit_inj [of "m mod 16" "n mod 16"] by simp
  from 1 2 show ?thesis by (metis div_mult_mod_eq)
qed

lemma escapeChar_not_Nil: "escapeChar c \<noteq> []"
  by (simp add: escapeChar_def)

lemma escapeChar_hd: "hd (escapeChar c) \<noteq> CHR 0x22"
  by (simp add: escapeChar_def)

lemma escapeChar_prefix_free:
  assumes "escapeChar c @ r = escapeChar d @ r'"
  shows "c = d"
  using assms
  by (auto simp: escapeChar_def split: if_splits dest: hex_pair_inj)

lemma escapeChar_cancel:
  assumes "escapeChar c @ r = escapeChar d @ r'"
  shows "c = d \<and> r = r'"
  using assms escapeChar_prefix_free by fastforce

lemma escape_inj:
  "concat (map escapeChar s) @ CHR 0x22 # r = concat (map escapeChar t) @ CHR 0x22 # r' \<Longrightarrow> s = t \<and> r = r'"
proof (induction s arbitrary: t)
  case Nil
  show ?case
  proof (cases t)
    case Nil with Nil.prems show ?thesis by simp
  next
    case (Cons d ds)
    with Nil.prems have "CHR 0x22 # r = escapeChar d @ (concat (map escapeChar ds) @ CHR 0x22 # r')" by simp
    then have "hd (escapeChar d) = CHR 0x22" using escapeChar_not_Nil [of d]
      by (metis hd_append2 list.sel(1))
    then show ?thesis using escapeChar_hd by blast
  qed
next
  case (Cons c cs)
  show ?case
  proof (cases t)
    case Nil
    with Cons.prems have "escapeChar c @ (concat (map escapeChar cs) @ CHR 0x22 # r) = CHR 0x22 # r'" by simp
    then have "hd (escapeChar c) = CHR 0x22" using escapeChar_not_Nil [of c]
      by (metis hd_append2 list.sel(1))
    then show ?thesis using escapeChar_hd by blast
  next
    case (Cons d ds)
    with Cons.prems have
      "escapeChar c @ (concat (map escapeChar cs) @ CHR 0x22 # r) =
       escapeChar d @ (concat (map escapeChar ds) @ CHR 0x22 # r')" by simp
    then have "c = d" "concat (map escapeChar cs) @ CHR 0x22 # r = concat (map escapeChar ds) @ CHR 0x22 # r'"
      using escapeChar_cancel by blast+
    with Cons.IH Cons show ?thesis by blast
  qed
qed

lemma quoteJSON_inj: "quoteJSON s @ r = quoteJSON t @ r' \<Longrightarrow> s = t \<and> r = r'"
  using escape_inj [of s r t r'] by (simp add: quoteJSON_def)

lemma quoteJSON_hd: "\<exists>q. quoteJSON s = CHR 0x22 # q"
  by (simp add: quoteJSON_def)

lemma join_quote_inj:
  "join '','' (map quoteJSON xs) @ '']'' = join '','' (map quoteJSON ys) @ '']'' \<Longrightarrow> xs = ys"
proof (induction xs arbitrary: ys)
  case Nil
  then show ?case
  proof (cases ys)
    case (Cons y ys')
    obtain q where "quoteJSON y = CHR 0x22 # q" using quoteJSON_hd by blast
    with Nil Cons show ?thesis by (cases ys') auto
  qed simp
next
  case (Cons x xs)
  show ?case
  proof (cases ys)
    case Nil
    obtain q where "quoteJSON x = CHR 0x22 # q" using quoteJSON_hd by blast
    with Cons.prems Nil show ?thesis by (cases xs) auto
  next
    case ys: (Cons y ys')
    have eq: "quoteJSON x @ (if xs = [] then '']'' else '','' @ join '','' (map quoteJSON xs) @ '']'')
        = quoteJSON y @ (if ys' = [] then '']'' else '','' @ join '','' (map quoteJSON ys') @ '']'')"
      using Cons.prems ys by (cases xs; cases ys') auto
    then have xy: "x = y" and rest: "(if xs = [] then '']'' else '','' @ join '','' (map quoteJSON xs) @ '']'')
        = (if ys' = [] then '']'' else '','' @ join '','' (map quoteJSON ys') @ '']'')"
      using quoteJSON_inj by blast+
    from rest have "xs = ys'"
      using Cons.IH [of ys'] by (auto split: if_splits)
    with xy ys show ?thesis by simp
  qed
qed

lemma JSON_stringify_inj: "JSON_stringify xs = JSON_stringify ys \<longleftrightarrow> xs = ys"
  using join_quote_inj by (auto simp: JSON_stringify_def)



subsection \<open>Sequencing\<close>

lemma fst_andThen:
  "fst (andThen m f) = (case fst m of Inl e \<Rightarrow> Inl e | Inr a \<Rightarrow> fst (f a))"
  by (cases m) (auto simp: andThen_def split: sum.splits prod.splits)

lemma snd_andThen:
  "snd (andThen m f) = (case fst m of Inl e \<Rightarrow> snd m | Inr a \<Rightarrow> snd m @ snd (f a))"
  by (cases m) (auto simp: andThen_def split: sum.splits prod.splits)

lemma andThen_ret [simp]: "andThen (ret a) f = f a"
  by (simp add: andThen_def ret_def split: prod.splits)

lemma andThen_throw [simp]: "andThen (throw e) f = throw e"
  by (simp add: andThen_def throw_def)

lemma fst_ret [simp]: "fst (ret a) = Inr a" and snd_ret [simp]: "snd (ret a) = []"
  by (simp_all add: ret_def)

lemma fst_throw [simp]: "fst (throw e) = Inl e" and snd_throw [simp]: "snd (throw e) = []"
  by (simp_all add: throw_def)

lemma fst_logger [simp]: "fst (logger l) = Inr ()" and snd_logger [simp]: "snd (logger l) = [Log l]"
  by (simp_all add: logger_def)

lemma fst_storeFile [simp]: "fst (storeFile f c) = Inr ()"
  and snd_storeFile [simp]: "snd (storeFile f c) = [StoreFile f c]"
  by (simp_all add: storeFile_def)

lemma fst_execCommand [simp]: "fst (execCommand reply c) = reply c"
  and snd_execCommand [simp]: "snd (execCommand reply c) = [Exec c]"
  by (simp_all add: execCommand_def)

lemma commands_append [simp]: "commands (xs @ ys) = commands xs @ commands ys"
  by (induction xs rule: commands.induct) auto

lemma stores_append [simp]: "stores (xs @ ys) = stores xs @ stores ys"
  by (induction xs rule: stores.induct) auto

lemma applyEvents_append: "applyEvents (xs @ ys) d = applyEvents ys (applyEvents xs d)"
  by (simp add: applyEvents_def)

lemma applyEvents_no_stores: "stores es = [] \<Longrightarrow> applyEvents es d = d"
  unfolding applyEvents_def
  by (induction es arbitrary: d rule: stores.induct) auto

subsection \<open>Reading and restoring the file\<close>

lemma commands_decryptIfNeeded [simp]: "commands (snd (decryptIfNeeded w file fc)) = []"
  by (simp add: decryptIfNeeded_def split: sum.splits)

lemma commands_storeEncryptedAgain [simp]: "commands (snd (storeEncryptedAgain file fc)) = []"
  by (simp add: storeEncryptedAgain_def)

lemma snd_storeEncryptedAgain:
  "snd (storeEncryptedAgain file fc) = (if isFileEncrypted fc then [StoreFile file fc] else [])"
  by (simp add: storeEncryptedAgain_def)

lemma fst_storeEncryptedAgain [simp]: "fst (storeEncryptedAgain file fc) = Inr ()"
  by (simp add: storeEncryptedAgain_def)

lemma snd_decryptIfNeeded:
  "snd (decryptIfNeeded w file fc) =
     (if isFileEncrypted fc then
        (case decryptFile w fc of Inl e \<Rightarrow> [] | Inr dec \<Rightarrow> [StoreFile file dec])
      else [])"
  by (simp add: decryptIfNeeded_def split: sum.splits)

subsection \<open>Labels, version and retirement\<close>

lemma snd_updateLabels:
  "snd (updateLabels w options ex n fc) =
     (if existingLabels ex \<noteq> metadata.labels (gcp_metadata fc)
      then [Log (InfoUpdatingLabels n),
            Exec (SecretsUpdate n (addLabelsIfNeeded (metadata.labels (gcp_metadata fc)) False) (getCommandOptions options))]
      else [])"
  by (simp add: updateLabels_def JSON_stringify_inj snd_andThen split: sum.splits)

lemma fst_updateLabels:
  "fst (updateLabels w options ex n fc) =
     (if existingLabels ex \<noteq> metadata.labels (gcp_metadata fc)
      then (case execStatus w (SecretsUpdate n (addLabelsIfNeeded (metadata.labels (gcp_metadata fc)) False) (getCommandOptions options)) of
              Inl e \<Rightarrow> Inl e | Inr b \<Rightarrow> Inr ())
      else Inr ())"
  by (simp add: updateLabels_def JSON_stringify_inj fst_andThen split: sum.splits)

lemma snd_addVersion:
  "snd (addVersion w options n file) = [Exec (VersionsAdd n file (getCommandOptions options))]"
  by (simp add: addVersion_def snd_andThen split: sum.splits)

lemma fst_addVersion:
  "fst (addVersion w options n file) =
     (case execVersion w (VersionsAdd n file (getCommandOptions options)) of
        Inl e \<Rightarrow> Inl e | Inr nm \<Rightarrow> Inr (last (split ''/versions/'' nm)))"
  by (simp add: addVersion_def fst_andThen split: sum.splits)

lemma snd_retirePrevious:
  "snd (retirePrevious w options n fc v) =
     (if updateBehaviorOf fc = ''none'' then []
      else if updateBehaviorOf fc = ''destroy'' \<or> updateBehaviorOf fc = ''disable''
      then [Log (InfoRetiring (updateBehaviorOf fc) n),
            Exec (VersionsRetire (updateBehaviorOf fc) (minusOne (parseInt v)) n (getCommandOptions options))]
      else [Log (WarnInvalidBehavior (updateBehaviorOf fc))])"
  by (auto simp add: retirePrevious_def Let_def snd_andThen split: sum.splits)

lemma fst_retirePrevious:
  "fst (retirePrevious w options n fc v) =
     (if updateBehaviorOf fc = ''destroy'' \<or> updateBehaviorOf fc = ''disable''
      then (case execStatus w (VersionsRetire (updateBehaviorOf fc) (minusOne (parseInt v)) n (getCommandOptions options)) of
              Inl e \<Rightarrow> Inl e | Inr b \<Rightarrow> Inr ())
      else Inr ())"
  by (auto simp add: retirePrevious_def Let_def fst_andThen split: sum.splits)

lemma snd_createSecret:
  "snd (createSecret w options n fileName file fc) =
     [Log (InfoCreating n fileName),
      Exec (SecretsCreate n file (addLabelsIfNeeded (metadata.labels (gcp_metadata fc)) True) (getCommandOptions options))]"
  by (simp add: createSecret_def snd_andThen split: sum.splits)

lemma fst_createSecret:
  "fst (createSecret w options n fileName file fc) =
     execStatus w (SecretsCreate n file (addLabelsIfNeeded (metadata.labels (gcp_metadata fc)) True) (getCommandOptions options))"
  by (simp add: createSecret_def fst_andThen split: sum.splits)

lemma snd_updateSecret:
  "snd (updateSecret w options ex n file fc) =
     snd (updateLabels w options ex n fc) @
     (case fst (updateLabels w options ex n fc) of
        Inl e \<Rightarrow> []
      | Inr u \<Rightarrow>
          Exec (VersionsAdd n file (getCommandOptions options)) #
          (case execVersion w (VersionsAdd n file (getCommandOptions options)) of
             Inl e \<Rightarrow> []
           | Inr nm \<Rightarrow> snd (retirePrevious w options n fc (last (split ''/versions/'' nm)))))"
  by (simp add: updateSecret_def snd_andThen fst_andThen snd_addVersion fst_addVersion split: sum.splits)

lemma fst_updateSecret:
  "fst (updateSecret w options ex n file fc) =
     (case fst (updateLabels w options ex n fc) of
        Inl e \<Rightarrow> Inl e
      | Inr u \<Rightarrow>
          (case execVersion w (VersionsAdd n file (getCommandOptions options)) of
             Inl e \<Rightarrow> Inl e
           | Inr nm \<Rightarrow>
               (case fst (retirePrevious w options n fc (last (split ''/versions/'' nm))) of
                  Inl e \<Rightarrow> Inl e
                | Inr u \<Rightarrow> Inr True)))"
  by (simp add: updateSecret_def fst_andThen fst_addVersion split: sum.splits)

lemma stores_reconcile [simp]:
  "stores (snd (reconcile w options exs n fileName file fc)) = []"
  by (simp add: reconcile_def snd_updateSecret snd_createSecret snd_updateLabels snd_retirePrevious
      split: option.splits sum.splits)

lemma iam_reconcile [simp]:
  "filter isIam (commands (snd (reconcile w options exs n fileName file fc))) = []"
  by (simp add: reconcile_def snd_updateSecret snd_createSecret snd_updateLabels snd_retirePrevious
      split: option.splits sum.splits)

subsection \<open>The service accounts\<close>

lemma forEach_exec_props:
  "stores (snd (forEach (\<lambda>m. andThen (execCommand (execStatus w) (g m)) (\<lambda>_. ret ())) xs)) = [] \<and>
   set (commands (snd (forEach (\<lambda>m. andThen (execCommand (execStatus w) (g m)) (\<lambda>_. ret ())) xs))) \<subseteq> g ` set xs"
  by (induction xs) (auto simp: snd_andThen fst_andThen split: sum.splits)

lemma forEach_exec_done:
  "fst (forEach (\<lambda>m. andThen (execCommand (execStatus w) (g m)) (\<lambda>_. ret ())) xs) = Inr () \<Longrightarrow>
   commands (snd (forEach (\<lambda>m. andThen (execCommand (execStatus w) (g m)) (\<lambda>_. ret ())) xs)) = map g xs"
  by (induction xs) (auto simp: snd_andThen fst_andThen split: sum.splits)

lemma stores_manageServiceAccounts [simp]:
  "stores (snd (manageServiceAccounts w options n fc)) = []"
  by (auto simp: manageServiceAccounts_def addServiceAccounts_def deleteServiceAccounts_def
      snd_andThen fst_andThen forEach_exec_props split: option.splits sum.splits)

lemma manageServiceAccounts_commands:
  "c \<in> set (commands (snd (manageServiceAccounts w options n fc))) \<Longrightarrow> isIam c"
proof -
  have a: "\<And>xs g c. (\<forall>m. isIam (g m)) \<Longrightarrow>
      c \<in> set (commands (snd (forEach (\<lambda>m. andThen (execCommand (execStatus w) (g m)) (\<lambda>_. ret ())) xs)))
      \<Longrightarrow> isIam c"
    using forEach_exec_props by fastforce
  assume "c \<in> set (commands (snd (manageServiceAccounts w options n fc)))"
  then show ?thesis
    by (auto simp: manageServiceAccounts_def addServiceAccounts_def deleteServiceAccounts_def
      snd_andThen fst_andThen split: option.splits sum.splits if_splits dest!: a [rotated])
qed

lemma isIam_other:
  "isIam c \<Longrightarrow> \<not> isCreate c \<and> \<not> isUpdateLabels c \<and> \<not> isAddVersion c \<and> \<not> isRetire c"
  by (cases c) auto

lemma secretOps_manageServiceAccounts [simp]:
  "filter isSecretOp (commands (snd (manageServiceAccounts w options n fc))) = []"
  using manageServiceAccounts_commands isIam_other
  by (fastforce simp: filter_empty_conv isSecretOp_def)

lemma no_labels_or_version_in_iam:
  "filter (\<lambda>c. isUpdateLabels c \<or> isAddVersion c)
      (commands (snd (manageServiceAccounts w options n fc))) = []"
  using manageServiceAccounts_commands isIam_other
  by (fastforce simp: filter_empty_conv)

lemma no_retire_in_iam:
  "filter isRetire (commands (snd (manageServiceAccounts w options n fc))) = []"
  using manageServiceAccounts_commands isIam_other
  by (fastforce simp: filter_empty_conv)

lemma no_update_in_iam:
  "filter isUpdateLabels (commands (snd (manageServiceAccounts w options n fc))) = []"
  using manageServiceAccounts_commands isIam_other
  by (fastforce simp: filter_empty_conv)

lemma manageServiceAccounts_None:
  "serviceAccounts (gcp_metadata fc) = None \<Longrightarrow> manageServiceAccounts w options n fc = ret ()"
  by (simp add: manageServiceAccounts_def)

lemma deployFile_filteredOut:
  "filteredOut w options file \<Longrightarrow> deployFile w options exs d file = (Inr True, [])"
  by (simp add: deployFile_def Let_def ret_def)

lemma deployFile_unreadable:
  "\<not> filteredOut w options file \<Longrightarrow> d file = None \<Longrightarrow>
   deployFile w options exs d file = (Inl ''ENOENT'', [])"
  by (simp add: deployFile_def Let_def getFileContent_def) (simp add: throw_def)

lemma snd_deployFile:
  assumes "\<not> filteredOut w options file" and "d file = Some fc"
  shows "snd (deployFile w options exs d file) =
     snd (decryptIfNeeded w file fc) @
     (case fst (decryptIfNeeded w file fc) of
        Inl e \<Rightarrow> []
      | Inr u \<Rightarrow>
          snd (reconcile w options exs (secretNameOf (getFileName w file)) (getFileName w file) file fc) @
          (case fst (reconcile w options exs (secretNameOf (getFileName w file)) (getFileName w file) file fc) of
             Inl e \<Rightarrow> []
           | Inr success \<Rightarrow>
               snd (storeEncryptedAgain file fc) @
               snd (manageServiceAccounts w options (secretNameOf (getFileName w file)) fc)))"
  using assms
  by (simp add: deployFile_def Let_def getFileContent_def snd_andThen fst_andThen split: sum.splits)

lemma fst_deployFile:
  assumes "\<not> filteredOut w options file" and "d file = Some fc"
  shows "fst (deployFile w options exs d file) =
     (case fst (decryptIfNeeded w file fc) of
        Inl e \<Rightarrow> Inl e
      | Inr u \<Rightarrow>
          (case fst (reconcile w options exs (secretNameOf (getFileName w file)) (getFileName w file) file fc) of
             Inl e \<Rightarrow> Inl e
           | Inr success \<Rightarrow>
               (case fst (manageServiceAccounts w options (secretNameOf (getFileName w file)) fc) of
                  Inl e \<Rightarrow> Inl e
                | Inr u \<Rightarrow> Inr success)))"
  using assms
  by (simp add: deployFile_def Let_def getFileContent_def snd_andThen fst_andThen split: sum.splits)

lemma reconcile_None:
  "find (\<lambda>secret. name secret = n) exs = None \<Longrightarrow>
   reconcile w options exs n fileName file fc = createSecret w options n fileName file fc"
  by (simp add: reconcile_def)

lemma reconcile_Some:
  "find (\<lambda>secret. name secret = n) exs = Some ex \<Longrightarrow>
   reconcile w options exs n fileName file fc = updateSecret w options ex n file fc"
  by (simp add: reconcile_def)

subsection \<open>The run over all files\<close>

lemma fst_mapFiles_Cons:
  "fst (mapFiles w options exs d (file # files)) =
     fst (deployFile w options exs d file) #
     fst (mapFiles w options exs (applyEvents (snd (deployFile w options exs d file)) d) files)"
  by (simp split: prod.splits)

lemma snd_mapFiles_Cons:
  "snd (mapFiles w options exs d (file # files)) =
     snd (deployFile w options exs d file) @
     snd (mapFiles w options exs (applyEvents (snd (deployFile w options exs d file)) d) files)"
  by (simp split: prod.splits)

lemma length_mapFiles [simp]: "length (fst (mapFiles w options exs d files)) = length files"
  by (induction files arbitrary: d) (simp_all add: fst_mapFiles_Cons del: mapFiles.simps(2))

lemma mapFiles_append:
  "mapFiles w options exs d (xs @ ys) =
     (fst (mapFiles w options exs d xs) @
        fst (mapFiles w options exs (applyEvents (snd (mapFiles w options exs d xs)) d) ys),
      snd (mapFiles w options exs d xs) @
        snd (mapFiles w options exs (applyEvents (snd (mapFiles w options exs d xs)) d) ys))"
proof (induction xs arbitrary: d)
  case Nil
  show ?case by (simp add: applyEvents_def)
next
  case (Cons x xs)
  show ?case
    by (simp add: Cons.IH applyEvents_append fst_mapFiles_Cons snd_mapFiles_Cons prod_eq_iff
          del: mapFiles.simps(2))
qed

lemma mapFiles_single:
  "mapFiles w options exs d [file] =
     ([fst (deployFile w options exs d file)], snd (deployFile w options exs d file))"
  by (simp split: prod.splits)

lemma mapFiles_nth:
  assumes "i < length files"
  shows "fst (mapFiles w options exs d files) ! i =
           fst (deployFile w options exs
                  (applyEvents (snd (mapFiles w options exs d (take i files))) d) (files ! i))"
    and "snd (mapFiles w options exs d (take (Suc i) files)) =
           snd (mapFiles w options exs d (take i files)) @
           snd (deployFile w options exs
                  (applyEvents (snd (mapFiles w options exs d (take i files))) d) (files ! i))"
    and "prefix (snd (mapFiles w options exs d (take (Suc i) files))) (snd (mapFiles w options exs d files))"
proof -
  have split3: "files = take i files @ [files ! i] @ drop (Suc i) files"
    using assms by (simp add: id_take_nth_drop)
  have len: "length (fst (mapFiles w options exs d (take i files))) = i"
    using assms by simp
  have "fst (mapFiles w options exs d files) ! i =
        fst (mapFiles w options exs d (take i files @ [files ! i] @ drop (Suc i) files)) ! i"
    using split3 by simp
  also have "\<dots> = fst (deployFile w options exs
                  (applyEvents (snd (mapFiles w options exs d (take i files))) d) (files ! i))"
    by (simp only: mapFiles_append [of _ _ _ _ "take i files"] mapFiles_append [of _ _ _ _ "[files ! i]"]
          mapFiles_single fst_conv snd_conv)
       (use assms in \<open>simp add: nth_append min_def\<close>)
  finally show "fst (mapFiles w options exs d files) ! i =
           fst (deployFile w options exs
                  (applyEvents (snd (mapFiles w options exs d (take i files))) d) (files ! i))" .
  have ts: "take (Suc i) files = take i files @ [files ! i]"
    using assms by (simp add: take_Suc_conv_app_nth)
  show "snd (mapFiles w options exs d (take (Suc i) files)) =
           snd (mapFiles w options exs d (take i files)) @
           snd (deployFile w options exs
                  (applyEvents (snd (mapFiles w options exs d (take i files))) d) (files ! i))"
    by (simp only: ts mapFiles_append mapFiles_single snd_conv)
  have "files = take (Suc i) files @ drop (Suc i) files" by simp
  then have "snd (mapFiles w options exs d files) =
      snd (mapFiles w options exs d (take (Suc i) files)) @
      snd (mapFiles w options exs (applyEvents (snd (mapFiles w options exs d (take (Suc i) files))) d)
             (drop (Suc i) files))"
    by (metis mapFiles_append snd_conv)
  then show "prefix (snd (mapFiles w options exs d (take (Suc i) files))) (snd (mapFiles w options exs d files))"
    by (metis prefixI)
qed

lemma mapFiles_all_filteredOut:
  "\<forall>f\<in>set files. filteredOut w options f \<Longrightarrow>
   mapFiles w options exs d files = (map (\<lambda>f. Inr True) files, [])"
  by (induction files arbitrary: d) (auto simp: deployFile_filteredOut applyEvents_def)

lemma promiseAll_Inl:
  "promiseAll rs = Inl e \<Longrightarrow> Inl e \<in> set rs"
  by (auto simp: promiseAll_def find_Some_iff split: option.splits sum.splits)

lemma promiseAll_rejects:
  "Inl e \<in> set rs \<Longrightarrow> \<exists>e'. promiseAll rs = Inl e'"
  by (auto simp: promiseAll_def find_None_iff split: option.splits)

lemma promiseAll_Inr:
  "promiseAll rs = Inr bs \<Longrightarrow> rs = map Inr bs"
  by (auto simp: promiseAll_def find_None_iff split: option.splits intro!: nth_equalityI)

lemma all_counted:
  "(length (filter (\<lambda>b. b) bs) = length bs) = (\<forall>b\<in>set bs. b)"
  by (metis (mono_tags, lifting) filter_id_conv filter_True
        sum_length_filter_compl add_cancel_right_right length_0_conv filter_empty_conv)

lemma fst_listSecrets:
  "fst (listSecrets w options) =
     (case execSecrets w (SecretsList (getCommandOptions options)) of
        Inl e \<Rightarrow> Inl e
      | Inr secrets \<Rightarrow> Inr (map (\<lambda>secret. secret\<lparr>name := last (split ''/secrets/'' (name secret))\<rparr>) secrets))"
  by (simp add: listSecrets_def fst_andThen split: sum.splits)

lemma snd_listSecrets:
  "snd (listSecrets w options) = [Exec (SecretsList (getCommandOptions options))]"
  by (simp add: listSecrets_def snd_andThen split: sum.splits)

lemma deployAll_listing_fails:
  "fst (listSecrets w options) = Inl e \<Longrightarrow>
   deployAll w options root d = (Inl e, [Exec (SecretsList (getCommandOptions options))])"
  using snd_listSecrets [of w options]
  by (cases "listSecrets w options") (simp add: deployAll_def andThen_def)

lemma deployAll_files_fail:
  "fst (listSecrets w options) = Inr exs \<Longrightarrow> getAllSecretFiles w root = Inl e \<Longrightarrow>
   deployAll w options root d = (Inl e, [Exec (SecretsList (getCommandOptions options))])"
  using snd_listSecrets [of w options]
  by (cases "listSecrets w options") (simp add: deployAll_def andThen_def throw_def)

lemma deployAll_files:
  "fst (listSecrets w options) = Inr exs \<Longrightarrow> getAllSecretFiles w root = Inr files \<Longrightarrow>
   deployAll w options root d =
     (case promiseAll (fst (mapFiles w options exs d files)) of
        Inl e \<Rightarrow> Inl e
      | Inr secretsCreated \<Rightarrow> Inr (length (filter (\<lambda>b. b) secretsCreated) = length files),
      Exec (SecretsList (getCommandOptions options)) # snd (mapFiles w options exs d files))"
  using snd_listSecrets [of w options]
  by (cases "listSecrets w options")
     (auto simp add: deployAll_def andThen_def split: prod.splits sum.splits)

subsection \<open>The commands of the service accounts\<close>

lemma commands_addServiceAccounts:
  "fst (addServiceAccounts w options n xs) = Inr () \<Longrightarrow>
   commands (snd (addServiceAccounts w options n xs)) =
     map (\<lambda>m. AddIamPolicyBinding n m (getCommandOptions options)) xs"
  by (auto simp: addServiceAccounts_def snd_andThen fst_andThen forEach_exec_done split: if_splits)

lemma commands_deleteServiceAccounts:
  "fst (deleteServiceAccounts w options n xs) = Inr () \<Longrightarrow>
   commands (snd (deleteServiceAccounts w options n xs)) =
     map (\<lambda>m. RemoveIamPolicyBinding n m (getCommandOptions options)) xs"
  by (auto simp: deleteServiceAccounts_def snd_andThen fst_andThen forEach_exec_done split: if_splits)

lemma commands_manageServiceAccounts:
  assumes "serviceAccounts (gcp_metadata fc) = Some allowed"
    and "execPolicy w (GetIamPolicy n (getCommandOptions options)) = Inr policy"
    and "fst (manageServiceAccounts w options n fc) = Inr ()"
  shows "commands (snd (manageServiceAccounts w options n fc)) =
     GetIamPolicy n (getCommandOptions options) #
     map (\<lambda>m. AddIamPolicyBinding n m (getCommandOptions options))
       (serviceAccountsToAdd allowed (existingServiceAccounts policy)) @
     map (\<lambda>m. RemoveIamPolicyBinding n m (getCommandOptions options))
       (serviceAccountsToDelete allowed (existingServiceAccounts policy))"
proof -
  let ?add = "addServiceAccounts w options n (serviceAccountsToAdd allowed (existingServiceAccounts policy))"
  let ?del = "deleteServiceAccounts w options n (serviceAccountsToDelete allowed (existingServiceAccounts policy))"
  have m: "manageServiceAccounts w options n fc =
      andThen (execCommand (execPolicy w) (GetIamPolicy n (getCommandOptions options)))
        (\<lambda>policy. andThen (addServiceAccounts w options n (serviceAccountsToAdd allowed (existingServiceAccounts policy)))
           (\<lambda>_. deleteServiceAccounts w options n (serviceAccountsToDelete allowed (existingServiceAccounts policy))))"
    using assms(1) by (simp add: manageServiceAccounts_def)
  have a: "fst ?add = Inr ()"
    using assms(2,3) unfolding m by (cases "fst ?add") (auto simp: fst_andThen)
  have b: "fst ?del = Inr ()"
    using assms(2,3) a unfolding m by (simp add: fst_andThen)
  show ?thesis
    unfolding m using assms(2) a b
    by (simp add: snd_andThen commands_addServiceAccounts commands_deleteServiceAccounts)
qed


subsection \<open>The example workspace\<close>

lemma ex_not_filtered: "\<not> filteredOut exampleWorld exampleOptions ''db.json''" by code_simp
lemma ex_disk: "exampleDisk ''db.json'' = Some dbEncrypted" by code_simp
lemma ex_decrypt: "fst (decryptIfNeeded exampleWorld ''db.json'' dbEncrypted) = Inr ()" by code_simp
lemma ex_find:
  "find (\<lambda>secret. name secret = secretNameOf (getFileName exampleWorld ''db.json'')) [dbRemote] = Some dbRemote"
  by code_simp
lemma ex_name: "secretNameOf (getFileName exampleWorld ''db.json'') = ''db''" by code_simp
lemma ex_options: "getCommandOptions exampleOptions = []" by code_simp
lemma ex_update: "fst (updateLabels exampleWorld exampleOptions dbRemote ''db'' dbEncrypted) = Inr ()"
  by code_simp
lemma ex_version:
  "execVersion exampleWorld (VersionsAdd ''db'' ''db.json'' []) = Inr ''projects/1/secrets/db/versions/7''"
  by code_simp
lemma ex_key: "isEncryptionKeySet exampleWorld" by code_simp
lemma ex_listing: "fst (listSecrets exampleWorld exampleOptions) = Inr [dbRemote]" by code_simp
lemma ex_files: "getAllSecretFiles exampleWorld ''src'' = Inr [''db.json'']" by code_simp

lemma api_not_filtered: "\<not> filteredOut exampleWorld exampleOptions ''api.json''" by code_simp
lemma api_disk: "twoFiles ''api.json'' = Some apiPlain" by code_simp
lemma api_decrypt: "fst (decryptIfNeeded exampleWorld ''api.json'' apiPlain) = Inr ()" by code_simp
lemma api_find:
  "find (\<lambda>secret. name secret = secretNameOf (getFileName exampleWorld ''api.json'')) [apiRemote] = Some apiRemote"
  by code_simp

lemma vf_not_filtered: "\<not> filteredOut versionFails exampleOptions ''db.json''" by code_simp
lemma vf_decrypt: "fst (decryptIfNeeded versionFails ''db.json'' dbEncrypted) = Inr ()" by code_simp
lemma vf_find:
  "find (\<lambda>secret. name secret = secretNameOf (getFileName versionFails ''db.json'')) [dbRemote] = Some dbRemote"
  by code_simp
lemma vf_name: "secretNameOf (getFileName versionFails ''db.json'') = ''db''" by code_simp

subsection \<open>A command that throws ends its piece with the exception\<close>

lemma thrown_andThen:
  assumes m: "\<And>c e. c \<in> set (commands (snd m)) \<Longrightarrow> thrown w c = Some e \<Longrightarrow> fst m = Inl e"
    and f: "\<And>a c e. c \<in> set (commands (snd (f a))) \<Longrightarrow> thrown w c = Some e \<Longrightarrow> fst (f a) = Inl e"
    and c: "c \<in> set (commands (snd (andThen m f)))"
    and t: "thrown w c = Some e"
  shows "fst (andThen m f) = Inl e"
proof (cases "fst m")
  case (Inl e')
  with c have "c \<in> set (commands (snd m))" by (simp add: snd_andThen)
  with m t have "fst m = Inl e" by blast
  then show ?thesis by (simp add: fst_andThen)
next
  case (Inr a)
  with c have "c \<in> set (commands (snd m)) \<or> c \<in> set (commands (snd (f a)))"
    by (simp add: snd_andThen)
  then show ?thesis
  proof
    assume "c \<in> set (commands (snd m))"
    with m t have "fst m = Inl e" by blast
    with Inr show ?thesis by simp
  next
    assume "c \<in> set (commands (snd (f a)))"
    with f t have "fst (f a) = Inl e" by blast
    with Inr show ?thesis by (simp add: fst_andThen)
  qed
qed

lemma thrown_updateSecret:
  "c \<in> set (commands (snd (updateSecret w options ex n file fc))) \<Longrightarrow> thrown w c = Some e \<Longrightarrow>
   fst (updateSecret w options ex n file fc) = Inl e"
  by (auto simp: snd_updateSecret fst_updateSecret snd_updateLabels fst_updateLabels
        snd_retirePrevious fst_retirePrevious errorOf_def
        split: sum.splits if_splits)

lemma thrown_createSecret:
  "c \<in> set (commands (snd (createSecret w options n fileName file fc))) \<Longrightarrow> thrown w c = Some e \<Longrightarrow>
   fst (createSecret w options n fileName file fc) = Inl e"
  by (auto simp: snd_createSecret fst_createSecret errorOf_def split: sum.splits)

lemma thrown_reconcile:
  "c \<in> set (commands (snd (reconcile w options exs n fileName file fc))) \<Longrightarrow> thrown w c = Some e \<Longrightarrow>
   fst (reconcile w options exs n fileName file fc) = Inl e"
  by (auto simp: reconcile_def thrown_updateSecret thrown_createSecret split: option.splits)

lemma thrown_forEach:
  assumes g: "\<And>m. thrown w (g m) = errorOf (execStatus w (g m))"
  shows "c \<in> set (commands (snd (forEach (\<lambda>m. andThen (execCommand (execStatus w) (g m)) (\<lambda>_. ret ())) xs))) \<Longrightarrow>
   thrown w c = Some e \<Longrightarrow>
   fst (forEach (\<lambda>m. andThen (execCommand (execStatus w) (g m)) (\<lambda>_. ret ())) xs) = Inl e"
proof (induction xs)
  case Nil
  then show ?case by simp
next
  case (Cons x xs)
  show ?case
  proof (cases "execStatus w (g x)")
    case (Inl e')
    with Cons.prems g [of x] show ?thesis
      by (auto simp: snd_andThen fst_andThen errorOf_def)
  next
    case (Inr b)
    with Cons.prems g [of x] have "c \<in> set (commands (snd (forEach (\<lambda>m. andThen (execCommand (execStatus w) (g m)) (\<lambda>_. ret ())) xs)))"
      by (auto simp: snd_andThen fst_andThen errorOf_def)
    with Cons.IH Cons.prems(2) Inr show ?thesis
      by (simp add: fst_andThen)
  qed
qed

lemma thrown_addServiceAccounts:
  "c \<in> set (commands (snd (addServiceAccounts w options n xs))) \<Longrightarrow> thrown w c = Some e \<Longrightarrow>
   fst (addServiceAccounts w options n xs) = Inl e"
  using thrown_forEach [of w "\<lambda>m. AddIamPolicyBinding n m (getCommandOptions options)" c xs e]
  by (auto simp: addServiceAccounts_def snd_andThen fst_andThen split: if_splits)

lemma thrown_deleteServiceAccounts:
  "c \<in> set (commands (snd (deleteServiceAccounts w options n xs))) \<Longrightarrow> thrown w c = Some e \<Longrightarrow>
   fst (deleteServiceAccounts w options n xs) = Inl e"
  using thrown_forEach [of w "\<lambda>m. RemoveIamPolicyBinding n m (getCommandOptions options)" c xs e]
  by (auto simp: deleteServiceAccounts_def snd_andThen fst_andThen split: if_splits)

lemma thrown_execPolicy:
  "c \<in> set (commands (snd (execCommand (execPolicy w) (GetIamPolicy n os)))) \<Longrightarrow> thrown w c = Some e \<Longrightarrow>
   fst (execCommand (execPolicy w) (GetIamPolicy n os)) = Inl e"
  by (auto simp: errorOf_def split: sum.splits)

lemma thrown_add_then_delete:
  assumes c: "c \<in> set (commands (snd (andThen (addServiceAccounts w options n xs)
                                            (\<lambda>_. deleteServiceAccounts w options n ys))))"
    and t: "thrown w c = Some e"
  shows "fst (andThen (addServiceAccounts w options n xs)
                (\<lambda>_. deleteServiceAccounts w options n ys)) = Inl e"
proof (rule thrown_andThen [OF _ _ c t])
  fix c' e'
  assume "c' \<in> set (commands (snd (addServiceAccounts w options n xs)))" "thrown w c' = Some e'"
  then show "fst (addServiceAccounts w options n xs) = Inl e'" by (rule thrown_addServiceAccounts)
next
  fix a :: unit and c' e'
  assume "c' \<in> set (commands (snd (deleteServiceAccounts w options n ys)))" "thrown w c' = Some e'"
  then show "fst (deleteServiceAccounts w options n ys) = Inl e'" by (rule thrown_deleteServiceAccounts)
qed

lemma thrown_manageServiceAccounts:
  assumes c: "c \<in> set (commands (snd (manageServiceAccounts w options n fc)))"
    and t: "thrown w c = Some e"
  shows "fst (manageServiceAccounts w options n fc) = Inl e"
proof (cases "serviceAccounts (gcp_metadata fc)")
  case None
  with c show ?thesis by (simp add: manageServiceAccounts_def)
next
  case (Some allowed)
  have m: "manageServiceAccounts w options n fc =
      andThen (execCommand (execPolicy w) (GetIamPolicy n (getCommandOptions options)))
        (\<lambda>policy. andThen (addServiceAccounts w options n (serviceAccountsToAdd allowed (existingServiceAccounts policy)))
           (\<lambda>_. deleteServiceAccounts w options n (serviceAccountsToDelete allowed (existingServiceAccounts policy))))"
    using Some by (simp add: manageServiceAccounts_def)
  from c have c': "c \<in> set (commands (snd (
      andThen (execCommand (execPolicy w) (GetIamPolicy n (getCommandOptions options)))
        (\<lambda>policy. andThen (addServiceAccounts w options n (serviceAccountsToAdd allowed (existingServiceAccounts policy)))
           (\<lambda>_. deleteServiceAccounts w options n (serviceAccountsToDelete allowed (existingServiceAccounts policy)))))))"
    unfolding m .
  show ?thesis
    unfolding m
  proof (rule thrown_andThen [OF _ _ c' t])
    fix c'' e''
    assume "c'' \<in> set (commands (snd (execCommand (execPolicy w) (GetIamPolicy n (getCommandOptions options)))))"
      "thrown w c'' = Some e''"
    then show "fst (execCommand (execPolicy w) (GetIamPolicy n (getCommandOptions options))) = Inl e''"
      by (rule thrown_execPolicy)
  next
    fix policy c'' e''
    assume "c'' \<in> set (commands (snd (andThen (addServiceAccounts w options n (serviceAccountsToAdd allowed (existingServiceAccounts policy)))
           (\<lambda>_. deleteServiceAccounts w options n (serviceAccountsToDelete allowed (existingServiceAccounts policy))))))"
      "thrown w c'' = Some e''"
    then show "fst (andThen (addServiceAccounts w options n (serviceAccountsToAdd allowed (existingServiceAccounts policy)))
           (\<lambda>_. deleteServiceAccounts w options n (serviceAccountsToDelete allowed (existingServiceAccounts policy)))) = Inl e''"
      by (rule thrown_add_then_delete)
  qed
qed

lemma thrown_deployFile:
  assumes "c \<in> set (commands (snd (deployFile w options exs d file)))" and "thrown w c = Some e"
  shows "fst (deployFile w options exs d file) = Inl e"
proof (cases "filteredOut w options file")
  case True
  with assms show ?thesis by (simp add: deployFile_filteredOut)
next
  case False
  show ?thesis
  proof (cases "d file")
    case None
    with False assms show ?thesis by (simp add: deployFile_unreadable)
  next
    case (Some fc)
    let ?n = "secretNameOf (getFileName w file)"
    from assms(1) False Some have
      "c \<in> set (commands (snd (reconcile w options exs ?n (getFileName w file) file fc))) \<and>
         fst (decryptIfNeeded w file fc) = Inr ()
       \<or> c \<in> set (commands (snd (manageServiceAccounts w options ?n fc))) \<and>
         fst (decryptIfNeeded w file fc) = Inr () \<and>
         (\<exists>s. fst (reconcile w options exs ?n (getFileName w file) file fc) = Inr s)"
      by (auto simp: snd_deployFile split: sum.splits)
    then show ?thesis
    proof (elim disjE conjE exE)
      assume "c \<in> set (commands (snd (reconcile w options exs ?n (getFileName w file) file fc)))"
        and dec: "fst (decryptIfNeeded w file fc) = Inr ()"
      with assms(2) have "fst (reconcile w options exs ?n (getFileName w file) file fc) = Inl e"
        using thrown_reconcile by blast
      with False Some dec show ?thesis by (simp add: fst_deployFile)
    next
      fix s
      assume "c \<in> set (commands (snd (manageServiceAccounts w options ?n fc)))"
        and dec: "fst (decryptIfNeeded w file fc) = Inr ()"
        and r: "fst (reconcile w options exs ?n (getFileName w file) file fc) = Inr s"
      with assms(2) have "fst (manageServiceAccounts w options ?n fc) = Inl e"
        using thrown_manageServiceAccounts by blast
      with False Some dec r show ?thesis by (simp add: fst_deployFile)
    qed
  qed
qed

lemma deployFile_decrypt_throws:
  "\<not> filteredOut w options file \<Longrightarrow> d file = Some fc \<Longrightarrow> isFileEncrypted fc \<Longrightarrow>
   decryptFile w fc = Inl e \<Longrightarrow> deployFile w options exs d file = (Inl e, [])"
  by (simp add: prod_eq_iff fst_deployFile snd_deployFile decryptIfNeeded_def)

subsection \<open>Warnings\<close>

lemma warnings_forEach:
  "filter isWarning (snd (forEach (\<lambda>m. andThen (execCommand (execStatus w) (g m)) (\<lambda>_. ret ())) xs)) = []"
  by (induction xs) (auto simp: snd_andThen fst_andThen split: sum.splits)

lemma warnings_manageServiceAccounts [simp]:
  "filter isWarning (snd (manageServiceAccounts w options n fc)) = []"
  by (auto simp: manageServiceAccounts_def addServiceAccounts_def deleteServiceAccounts_def
      snd_andThen fst_andThen warnings_forEach split: option.splits sum.splits)

lemma decrypt_events:
  "snd (decryptIfNeeded w f fc) = [] \<or> (\<exists>d. snd (decryptIfNeeded w f fc) = [StoreFile f d])"
  by (auto simp add: snd_decryptIfNeeded split: sum.splits)

lemma warnings_decrypt [simp]: "filter isWarning (snd (decryptIfNeeded w f fc)) = []"
  using decrypt_events [of w f fc] by auto

lemma warnings_store [simp]: "filter isWarning (snd (storeEncryptedAgain file fc)) = []"
  by (simp add: snd_storeEncryptedAgain)

subsection \<open>The IAM commands of the callback\<close>

lemma iam_deployFile:
  assumes "\<not> filteredOut w options file" and "d file = Some fc"
    and "fst (deployFile w options exs d file) = Inr success"
  shows "filter isIam (commands (snd (deployFile w options exs d file))) =
           commands (snd (manageServiceAccounts w options (secretNameOf (getFileName w file)) fc))"
    and "fst (manageServiceAccounts w options (secretNameOf (getFileName w file)) fc) = Inr ()"
proof -
  let ?n = "secretNameOf (getFileName w file)"
  from assms have d1: "fst (decryptIfNeeded w file fc) = Inr ()"
    by (cases "fst (decryptIfNeeded w file fc)") (auto simp: fst_deployFile)
  from assms d1 obtain s where r1:
    "fst (reconcile w options exs ?n (getFileName w file) file fc) = Inr s"
    by (cases "fst (reconcile w options exs ?n (getFileName w file) file fc)")
       (auto simp: fst_deployFile)
  from assms d1 r1 show "fst (manageServiceAccounts w options ?n fc) = Inr ()"
    by (cases "fst (manageServiceAccounts w options ?n fc)") (auto simp: fst_deployFile)
  have "filter isIam (commands (snd (manageServiceAccounts w options ?n fc))) =
        commands (snd (manageServiceAccounts w options ?n fc))"
    using manageServiceAccounts_commands by (simp add: filter_id_conv)
  then show "filter isIam (commands (snd (deployFile w options exs d file))) =
           commands (snd (manageServiceAccounts w options ?n fc))"
    using assms d1 r1 by (simp add: snd_deployFile)
qed

lemma existingServiceAccounts_first:
  assumes "bindings p = Some (pre @ b # post)"
    and "role b = ''roles/secretmanager.secretAccessor''"
    and "\<forall>b'\<in>set pre. role b' \<noteq> ''roles/secretmanager.secretAccessor''"
  shows "existingServiceAccounts (Some p) = members b"
proof -
  have "find (\<lambda>b. role b = ''roles/secretmanager.secretAccessor'') (pre @ b # post) = Some b"
    using assms(2,3) by (induction pre) auto
  with assms(1) show ?thesis by (simp add: existingServiceAccounts_def)
qed

lemma existingServiceAccounts_none:
  assumes "bindings p = Some bs"
    and "\<forall>b\<in>set bs. role b \<noteq> ''roles/secretmanager.secretAccessor''"
  shows "existingServiceAccounts (Some p) = []"
proof -
  have "find (\<lambda>b. role b = ''roles/secretmanager.secretAccessor'') bs = None"
    using assms(2) by (simp add: find_None_iff)
  with assms(1) show ?thesis by (simp add: existingServiceAccounts_def)
qed


section \<open>The claims\<close>

text \<open>
  In the statements below a file is \<^emph>\<open>reached\<close> when the option \<^verbatim>\<open>secret\<close> does not
  leave it out, it is on disk, and decrypting it (when it is encrypted) does not throw:
  then the callback arrives at line 75 with the content of the file.
\<close>

subsection \<open>C1: the encrypted file after an exception\<close>

text \<open>
  C1 says that an encrypted file is stored encrypted again before its callback ends,
  also when an exception ends it. The callback stores the encrypted content at line
  158 only, after the secret has been reconciled, and nothing catches an exception
  before that line. In the example workspace, when \<^verbatim>\<open>gcloud secrets versions add\<close>
  fails, the callback ends with that exception, the only write to the file is the
  decrypted content, and after the whole run \<^verbatim>\<open>db.json\<close> is on disk decrypted.
\<close>

theorem plaintext_left_after_failed_version:
  "isFileEncrypted dbEncrypted
   \<and> exampleDisk ''db.json'' = Some dbEncrypted
   \<and> fst (deployFile versionFails exampleOptions [dbRemote] exampleDisk ''db.json'') =
         Inl ''versions add failed''
   \<and> stores (snd (deployFile versionFails exampleOptions [dbRemote] exampleDisk ''db.json'')) =
         [(''db.json'', dbDecrypted)]
   \<and> applyEvents (snd (deployExecutor versionFails exampleOptions ''src'' exampleDisk))
         exampleDisk ''db.json'' = Some dbDecrypted"
  by code_simp

subsection \<open>C2: where an error of one secret is caught\<close>

text \<open>
  C2 says that an error raised while one secret is reconciled is caught at the boundary
  of that secret and becomes a failure result of that secret. The callback has no
  handler: in the example with two files where \<^verbatim>\<open>gcloud secrets versions add\<close> fails
  for \<^verbatim>\<open>db\<close>, the callback of \<^verbatim>\<open>db.json\<close> ends with the exception, not with a
  result, and the handler of the whole run logs it. The callback of \<^verbatim>\<open>api.json\<close> has
  run all the same.
\<close>

theorem rejected_callback_reaches_run_handler:
  "fst (deployFile versionFailsTwoFiles exampleOptions [dbRemote] twoFiles ''db.json'') =
        Inl ''versions add failed''
   \<and> deployExecutor versionFailsTwoFiles exampleOptions ''src'' twoFiles =
        (False,
         [Exec (SecretsList []),
          StoreFile ''db.json'' dbDecrypted,
          Log (InfoUpdatingLabels ''db''),
          Exec (SecretsUpdate ''db'' [''--clear-labels'', ''--update-labels=a=1,b=2''] []),
          Exec (VersionsAdd ''db'' ''db.json'' []),
          Log (InfoCreating ''api'' ''api.json''),
          Exec (SecretsCreate ''api'' ''api.json'' [''--clear-labels''] []),
          Log (ErrorDecrypt ''versions add failed'')])"
  by code_simp

text \<open>
  C2, as amended. With the encryption key set: when the listing fails, or the
  enumeration of the files, the run ends there with \<^verbatim>\<open>success: false\<close> and no callback
  has run. Otherwise the callback of every file runs, each on the disk as the callbacks
  before it left it and whatever their outcome, and its events are events of the run;
  and when some callback ended with an exception, the handler of the run logs the
  exception of one of them after all callbacks have run, and the run reports
  \<^verbatim>\<open>success: false\<close>. Nothing inside a callback catches an error: when a command that
  the callback executes throws, the callback ends with that exception; so it does when
  decrypting the file throws, and when the file cannot be read.
\<close>

theorem errors_reach_the_run_handler:
  assumes "isEncryptionKeySet w"
  shows "(fst (listSecrets w options) = Inl e \<longrightarrow>
            deployExecutor w options sourceRoot d =
              (False, [Exec (SecretsList (getCommandOptions options)), Log (ErrorDecrypt e)]))
       \<and> (fst (listSecrets w options) = Inr existingSecrets \<and> getAllSecretFiles w sourceRoot = Inl e \<longrightarrow>
            deployExecutor w options sourceRoot d =
              (False, [Exec (SecretsList (getCommandOptions options)), Log (ErrorDecrypt e)]))
       \<and> (fst (listSecrets w options) = Inr existingSecrets \<and> getAllSecretFiles w sourceRoot = Inr files \<longrightarrow>
            length (fst (mapFiles w options existingSecrets d files)) = length files
          \<and> (\<forall>i<length files.
                fst (mapFiles w options existingSecrets d files) ! i =
                  fst (deployFile w options existingSecrets
                         (applyEvents (snd (mapFiles w options existingSecrets d (take i files))) d)
                         (files ! i))
              \<and> prefix (snd (mapFiles w options existingSecrets d (take i files)) @
                         snd (deployFile w options existingSecrets
                                (applyEvents (snd (mapFiles w options existingSecrets d (take i files))) d)
                                (files ! i)))
                        (snd (mapFiles w options existingSecrets d files)))
          \<and> (\<forall>x. Inl x \<in> set (fst (mapFiles w options existingSecrets d files)) \<longrightarrow>
                (\<exists>x'. Inl x' \<in> set (fst (mapFiles w options existingSecrets d files))
                   \<and> deployExecutor w options sourceRoot d =
                       (False, Exec (SecretsList (getCommandOptions options)) #
                               snd (mapFiles w options existingSecrets d files) @ [Log (ErrorDecrypt x')]))))
       \<and> (c \<in> set (commands (snd (deployFile w options existingSecrets d' f))) \<and> thrown w c = Some x \<longrightarrow>
            fst (deployFile w options existingSecrets d' f) = Inl x)
       \<and> (\<not> filteredOut w options f \<and> d' f = Some fileContent \<and> isFileEncrypted fileContent
            \<and> decryptFile w fileContent = Inl x \<longrightarrow>
            deployFile w options existingSecrets d' f = (Inl x, []))
       \<and> (\<not> filteredOut w options f \<and> d' f = None \<longrightarrow>
            isl (fst (deployFile w options existingSecrets d' f))
            \<and> snd (deployFile w options existingSecrets d' f) = [])"
proof -
  have 1: "fst (listSecrets w options) = Inl e \<longrightarrow>
            deployExecutor w options sourceRoot d =
              (False, [Exec (SecretsList (getCommandOptions options)), Log (ErrorDecrypt e)])"
    using assms by (simp add: deployExecutor_def deployAll_listing_fails)
  have 2: "fst (listSecrets w options) = Inr existingSecrets \<and> getAllSecretFiles w sourceRoot = Inl e \<longrightarrow>
            deployExecutor w options sourceRoot d =
              (False, [Exec (SecretsList (getCommandOptions options)), Log (ErrorDecrypt e)])"
    using assms by (simp add: deployExecutor_def deployAll_files_fail)
  have 3: "\<forall>i<length files.
                fst (mapFiles w options existingSecrets d files) ! i =
                  fst (deployFile w options existingSecrets
                         (applyEvents (snd (mapFiles w options existingSecrets d (take i files))) d)
                         (files ! i))
              \<and> prefix (snd (mapFiles w options existingSecrets d (take i files)) @
                         snd (deployFile w options existingSecrets
                                (applyEvents (snd (mapFiles w options existingSecrets d (take i files))) d)
                                (files ! i)))
                        (snd (mapFiles w options existingSecrets d files))"
    using mapFiles_nth [of _ files w options existingSecrets d] by metis
  have 4: "fst (listSecrets w options) = Inr existingSecrets \<and> getAllSecretFiles w sourceRoot = Inr files \<longrightarrow>
      (\<forall>x. Inl x \<in> set (fst (mapFiles w options existingSecrets d files)) \<longrightarrow>
                (\<exists>x'. Inl x' \<in> set (fst (mapFiles w options existingSecrets d files))
                   \<and> deployExecutor w options sourceRoot d =
                       (False, Exec (SecretsList (getCommandOptions options)) #
                               snd (mapFiles w options existingSecrets d files) @ [Log (ErrorDecrypt x')])))"
  proof (intro impI allI)
    fix x
    assume a: "fst (listSecrets w options) = Inr existingSecrets \<and> getAllSecretFiles w sourceRoot = Inr files"
      and b: "Inl x \<in> set (fst (mapFiles w options existingSecrets d files))"
    from b obtain x' where p: "promiseAll (fst (mapFiles w options existingSecrets d files)) = Inl x'"
      using promiseAll_rejects by blast
    then have "Inl x' \<in> set (fst (mapFiles w options existingSecrets d files))"
      by (rule promiseAll_Inl)
    moreover have "deployExecutor w options sourceRoot d =
                       (False, Exec (SecretsList (getCommandOptions options)) #
                               snd (mapFiles w options existingSecrets d files) @ [Log (ErrorDecrypt x')])"
      using assms a p by (simp add: deployExecutor_def deployAll_files)
    ultimately show "\<exists>x'. Inl x' \<in> set (fst (mapFiles w options existingSecrets d files))
                   \<and> deployExecutor w options sourceRoot d =
                       (False, Exec (SecretsList (getCommandOptions options)) #
                               snd (mapFiles w options existingSecrets d files) @ [Log (ErrorDecrypt x')])"
      by blast
  qed
  have 5: "c \<in> set (commands (snd (deployFile w options existingSecrets d' f))) \<and> thrown w c = Some x \<longrightarrow>
            fst (deployFile w options existingSecrets d' f) = Inl x"
    using thrown_deployFile by blast
  have 6: "\<not> filteredOut w options f \<and> d' f = Some fileContent \<and> isFileEncrypted fileContent
            \<and> decryptFile w fileContent = Inl x \<longrightarrow>
            deployFile w options existingSecrets d' f = (Inl x, [])"
    using deployFile_decrypt_throws by blast
  have 7: "\<not> filteredOut w options f \<and> d' f = None \<longrightarrow>
            isl (fst (deployFile w options existingSecrets d' f))
            \<and> snd (deployFile w options existingSecrets d' f) = []"
    by (simp add: deployFile_unreadable)
  from 1 2 3 4 5 6 7 show ?thesis by simp
qed

text \<open>The amended C2 on the example with two files: the command that adds the version
  throws and the callback of \<^verbatim>\<open>db.json\<close> ends with its exception, the second callback
  runs and succeeds, and the run fails with the logged exception of the first.\<close>

theorem errors_reach_the_run_handler_witness:
  "isEncryptionKeySet versionFailsTwoFiles
   \<and> fst (listSecrets versionFailsTwoFiles exampleOptions) = Inr [dbRemote]
   \<and> getAllSecretFiles versionFailsTwoFiles ''src'' = Inr [''db.json'', ''api.json'']
   \<and> VersionsAdd ''db'' ''db.json'' []
        \<in> set (commands (snd (deployFile versionFailsTwoFiles exampleOptions [dbRemote] twoFiles ''db.json'')))
   \<and> thrown versionFailsTwoFiles (VersionsAdd ''db'' ''db.json'' []) = Some ''versions add failed''
   \<and> fst (deployFile versionFailsTwoFiles exampleOptions [dbRemote] twoFiles ''db.json'') =
        Inl ''versions add failed''
   \<and> fst (mapFiles versionFailsTwoFiles exampleOptions [dbRemote] twoFiles [''db.json'', ''api.json'']) =
        [Inl ''versions add failed'', Inr True]
   \<and> fst (deployFile versionFailsTwoFiles exampleOptions [dbRemote]
             (applyEvents (snd (mapFiles versionFailsTwoFiles exampleOptions [dbRemote] twoFiles
                                  (take 1 [''db.json'', ''api.json''])))
                twoFiles)
             ''api.json'') = Inr True
   \<and> fst (deployExecutor versionFailsTwoFiles exampleOptions ''src'' twoFiles) = False
   \<and> last (snd (deployExecutor versionFailsTwoFiles exampleOptions ''src'' twoFiles)) =
        Log (ErrorDecrypt ''versions add failed'')"
proof -
  have k: "isEncryptionKeySet versionFailsTwoFiles" by code_simp
  have l: "fst (listSecrets versionFailsTwoFiles exampleOptions) = Inr [dbRemote]" by code_simp
  have f: "getAllSecretFiles versionFailsTwoFiles ''src'' = Inr [''db.json'', ''api.json'']" by code_simp
  have m: "fst (mapFiles versionFailsTwoFiles exampleOptions [dbRemote] twoFiles [''db.json'', ''api.json'']) =
        [Inl ''versions add failed'', Inr True]" by code_simp
  have c: "VersionsAdd ''db'' ''db.json'' []
        \<in> set (commands (snd (deployFile versionFailsTwoFiles exampleOptions [dbRemote] twoFiles ''db.json'')))"
    by code_simp
  have t: "thrown versionFailsTwoFiles (VersionsAdd ''db'' ''db.json'' []) = Some ''versions add failed''"
    by code_simp
  note inst = errors_reach_the_run_handler
         [where w = versionFailsTwoFiles and options = exampleOptions and sourceRoot = "''src''"
            and d = twoFiles and existingSecrets = "[dbRemote]" and files = "[''db.json'', ''api.json'']"
            and d' = twoFiles and f = "''db.json''" and c = "VersionsAdd ''db'' ''db.json'' []"
            and x = "''versions add failed''",
          OF k]
  from inst c t have 0: "fst (deployFile versionFailsTwoFiles exampleOptions [dbRemote] twoFiles ''db.json'') =
        Inl ''versions add failed''"
    by blast
  from inst l f have "\<forall>i<length [''db.json'', ''api.json''].
      fst (mapFiles versionFailsTwoFiles exampleOptions [dbRemote] twoFiles [''db.json'', ''api.json'']) ! i =
      fst (deployFile versionFailsTwoFiles exampleOptions [dbRemote]
             (applyEvents (snd (mapFiles versionFailsTwoFiles exampleOptions [dbRemote] twoFiles
                                  (take i [''db.json'', ''api.json''])))
                twoFiles)
             ([''db.json'', ''api.json''] ! i))"
    by blast
  then have "fst (mapFiles versionFailsTwoFiles exampleOptions [dbRemote] twoFiles [''db.json'', ''api.json'']) ! 1 =
      fst (deployFile versionFailsTwoFiles exampleOptions [dbRemote]
             (applyEvents (snd (mapFiles versionFailsTwoFiles exampleOptions [dbRemote] twoFiles
                                  (take 1 [''db.json'', ''api.json''])))
                twoFiles)
             ([''db.json'', ''api.json''] ! 1))"
    by (metis One_nat_def length_Cons lessI list.size(3))
  then have 1: "fst (deployFile versionFailsTwoFiles exampleOptions [dbRemote]
             (applyEvents (snd (mapFiles versionFailsTwoFiles exampleOptions [dbRemote] twoFiles
                                  (take 1 [''db.json'', ''api.json''])))
                twoFiles)
             ''api.json'') = Inr True"
    by (simp add: m del: mapFiles.simps)
  have "Inl ''versions add failed''
      \<in> set (fst (mapFiles versionFailsTwoFiles exampleOptions [dbRemote] twoFiles [''db.json'', ''api.json'']))"
    by (simp only: m) simp
  with inst l f obtain x' where
    x: "Inl x' \<in> set (fst (mapFiles versionFailsTwoFiles exampleOptions [dbRemote] twoFiles [''db.json'', ''api.json'']))"
    and d: "deployExecutor versionFailsTwoFiles exampleOptions ''src'' twoFiles =
           (False, Exec (SecretsList (getCommandOptions exampleOptions)) #
                   snd (mapFiles versionFailsTwoFiles exampleOptions [dbRemote] twoFiles [''db.json'', ''api.json'']) @
                   [Log (ErrorDecrypt x')])"
    by blast
  from x have "x' = ''versions add failed''" by (simp only: m) simp
  with d have 2: "fst (deployExecutor versionFailsTwoFiles exampleOptions ''src'' twoFiles) = False"
    and 3: "last (snd (deployExecutor versionFailsTwoFiles exampleOptions ''src'' twoFiles)) =
        Log (ErrorDecrypt ''versions add failed'')"
    by simp_all
  from k l f c t 0 m 1 2 3 show ?thesis by blast
qed

subsection \<open>C3: the comparison of the labels\<close>

text \<open>
  C3 says that the labels are compared as sets, so that the same labels in another order
  cause no update. The source compares two serialised arrays. In the example the file
  declares \<^verbatim>\<open>a=1\<close>, \<^verbatim>\<open>b=2\<close> and the remote secret has the same labels under the keys
  \<^verbatim>\<open>b\<close>, \<^verbatim>\<open>a\<close>: the labels are updated.
\<close>

theorem reordered_labels_are_updated:
  "set (existingLabels dbRemote) = set (metadata.labels (gcp_metadata dbEncrypted))
   \<and> filter isUpdateLabels
         (commands (snd (deployFile exampleWorld exampleOptions [dbRemote] exampleDisk ''db.json''))) =
        [SecretsUpdate ''db'' [''--clear-labels'', ''--update-labels=a=1,b=2''] []]"
proof -
  have "set (existingLabels dbRemote) = set (metadata.labels (gcp_metadata dbEncrypted))"
    by (auto simp: existingLabels_def dbRemote_def dbEncrypted_def)
  moreover have "filter isUpdateLabels
         (commands (snd (deployFile exampleWorld exampleOptions [dbRemote] exampleDisk ''db.json''))) =
        [SecretsUpdate ''db'' [''--clear-labels'', ''--update-labels=a=1,b=2''] []]"
    by code_simp
  ultimately show ?thesis by blast
qed

text \<open>
  C3, as amended. For a reached file whose secret exists remotely, the callback executes
  no label update exactly when the remote labels, as \<^verbatim>\<open>key=value\<close> strings in the order
  of the remote keys, are the declared sequence of labels: the comparison is of
  sequences, and it depends on the order.
\<close>

theorem labels_compared_in_order:
  assumes "\<not> filteredOut w options file"
    and "d file = Some fileContent"
    and "fst (decryptIfNeeded w file fileContent) = Inr ()"
    and "find (\<lambda>secret. name secret = secretNameOf (getFileName w file)) existingSecrets = Some secretExists"
  shows "(filter isUpdateLabels (commands (snd (deployFile w options existingSecrets d file))) = [])
           = (existingLabels secretExists = metadata.labels (gcp_metadata fileContent))"
  using assms
  by (auto simp add: snd_deployFile reconcile_Some snd_updateSecret fst_updateSecret
        snd_updateLabels fst_updateLabels snd_retirePrevious no_update_in_iam
        split: sum.splits)

text \<open>The amended C3 on the example: no update against a remote secret with the labels
  in the declared order, an update against the one with the other order.\<close>

theorem labels_compared_in_order_witness:
  "\<not> filteredOut exampleWorld exampleOptions ''db.json''
   \<and> exampleDisk ''db.json'' = Some dbEncrypted
   \<and> fst (decryptIfNeeded exampleWorld ''db.json'' dbEncrypted) = Inr ()
   \<and> find (\<lambda>secret. name secret = secretNameOf (getFileName exampleWorld ''db.json'')) [dbRemoteSameOrder]
        = Some dbRemoteSameOrder
   \<and> existingLabels dbRemoteSameOrder = metadata.labels (gcp_metadata dbEncrypted)
   \<and> filter isUpdateLabels
        (commands (snd (deployFile exampleWorld exampleOptions [dbRemoteSameOrder] exampleDisk ''db.json''))) = []
   \<and> find (\<lambda>secret. name secret = secretNameOf (getFileName exampleWorld ''db.json'')) [dbRemote] = Some dbRemote
   \<and> existingLabels dbRemote \<noteq> metadata.labels (gcp_metadata dbEncrypted)
   \<and> filter isUpdateLabels
        (commands (snd (deployFile exampleWorld exampleOptions [dbRemote] exampleDisk ''db.json''))) \<noteq> []"
proof -
  have f: "find (\<lambda>secret. name secret = secretNameOf (getFileName exampleWorld ''db.json'')) [dbRemoteSameOrder]
        = Some dbRemoteSameOrder" by code_simp
  have same: "existingLabels dbRemoteSameOrder = metadata.labels (gcp_metadata dbEncrypted)" by code_simp
  have diff: "existingLabels dbRemote \<noteq> metadata.labels (gcp_metadata dbEncrypted)" by code_simp
  from labels_compared_in_order
         [of exampleWorld exampleOptions "''db.json''" exampleDisk dbEncrypted "[dbRemoteSameOrder]" dbRemoteSameOrder,
          OF ex_not_filtered ex_disk ex_decrypt f] same
  have 1: "filter isUpdateLabels
        (commands (snd (deployFile exampleWorld exampleOptions [dbRemoteSameOrder] exampleDisk ''db.json''))) = []"
    by simp
  from labels_compared_in_order
         [of exampleWorld exampleOptions "''db.json''" exampleDisk dbEncrypted "[dbRemote]" dbRemote,
          OF ex_not_filtered ex_disk ex_decrypt ex_find] diff
  have 2: "filter isUpdateLabels
        (commands (snd (deployFile exampleWorld exampleOptions [dbRemote] exampleDisk ''db.json''))) \<noteq> []"
    by simp
  from ex_not_filtered ex_disk ex_decrypt f same 1 ex_find diff 2 show ?thesis by blast
qed

subsection \<open>C4: a new version that cannot be added\<close>

text \<open>
  C4 says that a failure of \<^verbatim>\<open>addVersion\<close> skips the rest of the operations of that
  secret and does not pass the boundary of the secret. The first half holds; the
  failure does pass: in the example the callback ends with the exception, and the
  handler of the run logs it and reports \<^verbatim>\<open>success: false\<close>.
\<close>

theorem failed_version_reaches_run_handler:
  "fst (deployFile versionFails exampleOptions [dbRemote] exampleDisk ''db.json'') =
        Inl ''versions add failed''
   \<and> deployExecutor versionFails exampleOptions ''src'' exampleDisk =
        (False,
         [Exec (SecretsList []),
          StoreFile ''db.json'' dbDecrypted,
          Log (InfoUpdatingLabels ''db''),
          Exec (SecretsUpdate ''db'' [''--clear-labels'', ''--update-labels=a=1,b=2''] []),
          Exec (VersionsAdd ''db'' ''db.json'' []),
          Log (ErrorDecrypt ''versions add failed'')])"
  by code_simp

text \<open>
  C4, as amended. For a reached file whose secret exists remotely, when the update of
  the labels (if there was one) returned and \<^verbatim>\<open>gcloud secrets versions add\<close> throws:
  no version is retired and no IAM command is executed, and the callback ends with the
  exception of the command, which so passes the boundary of the secret.
\<close>

theorem failed_version_ends_the_unit:
  assumes "\<not> filteredOut w options file"
    and "d file = Some fileContent"
    and "fst (decryptIfNeeded w file fileContent) = Inr ()"
    and "find (\<lambda>secret. name secret = secretNameOf (getFileName w file)) existingSecrets = Some secretExists"
    and "fst (updateLabels w options secretExists (secretNameOf (getFileName w file)) fileContent) = Inr ()"
    and "execVersion w (VersionsAdd (secretNameOf (getFileName w file)) file (getCommandOptions options)) = Inl e"
  shows "fst (deployFile w options existingSecrets d file) = Inl e
       \<and> filter isRetire (commands (snd (deployFile w options existingSecrets d file))) = []
       \<and> filter isIam (commands (snd (deployFile w options existingSecrets d file))) = []"
  using assms
  by (auto simp add: snd_deployFile fst_deployFile reconcile_Some snd_updateSecret fst_updateSecret
        snd_updateLabels
        split: sum.splits)

text \<open>The amended C4 on the example where adding the version fails.\<close>

theorem failed_version_ends_the_unit_witness:
  "\<not> filteredOut versionFails exampleOptions ''db.json''
   \<and> exampleDisk ''db.json'' = Some dbEncrypted
   \<and> fst (decryptIfNeeded versionFails ''db.json'' dbEncrypted) = Inr ()
   \<and> find (\<lambda>secret. name secret = secretNameOf (getFileName versionFails ''db.json'')) [dbRemote] = Some dbRemote
   \<and> fst (updateLabels versionFails exampleOptions dbRemote ''db'' dbEncrypted) = Inr ()
   \<and> execVersion versionFails (VersionsAdd ''db'' ''db.json'' []) = Inl ''versions add failed''
   \<and> fst (deployFile versionFails exampleOptions [dbRemote] exampleDisk ''db.json'') = Inl ''versions add failed''
   \<and> filter isRetire (commands (snd (deployFile versionFails exampleOptions [dbRemote] exampleDisk ''db.json''))) = []
   \<and> filter isIam (commands (snd (deployFile versionFails exampleOptions [dbRemote] exampleDisk ''db.json''))) = []"
proof -
  have u: "fst (updateLabels versionFails exampleOptions dbRemote ''db'' dbEncrypted) = Inr ()" by code_simp
  have v: "execVersion versionFails (VersionsAdd ''db'' ''db.json'' []) = Inl ''versions add failed''"
    by code_simp
  from failed_version_ends_the_unit
         [of versionFails exampleOptions "''db.json''" exampleDisk dbEncrypted "[dbRemote]" dbRemote
             "''versions add failed''"]
       vf_not_filtered ex_disk vf_decrypt vf_find u v
  have "fst (deployFile versionFails exampleOptions [dbRemote] exampleDisk ''db.json'') = Inl ''versions add failed''
   \<and> filter isRetire (commands (snd (deployFile versionFails exampleOptions [dbRemote] exampleDisk ''db.json''))) = []
   \<and> filter isIam (commands (snd (deployFile versionFails exampleOptions [dbRemote] exampleDisk ''db.json''))) = []"
    by (simp add: vf_name ex_options)
  with vf_not_filtered ex_disk vf_decrypt vf_find u v show ?thesis by blast
qed

subsection \<open>C5: a secret that does not exist remotely\<close>

text \<open>
  C5. For a reached file whose secret is not in the remote listing, the callback
  executes exactly one \<^verbatim>\<open>gcloud secrets create\<close>, with the labels of the file, and no
  label update, no new version and no retirement: among the commands of the callback,
  the operations on the secret are that one command. When the file declares labels,
  the command carries them as \<^verbatim>\<open>--labels=\<close> followed by the labels, joined by commas.
\<close>

theorem create_only_when_absent:
  assumes "\<not> filteredOut w options file"
    and "d file = Some fileContent"
    and "fst (decryptIfNeeded w file fileContent) = Inr ()"
    and "find (\<lambda>secret. name secret = secretNameOf (getFileName w file)) existingSecrets = None"
  shows "filter isSecretOp (commands (snd (deployFile w options existingSecrets d file))) =
           [SecretsCreate (secretNameOf (getFileName w file)) file
              (addLabelsIfNeeded (metadata.labels (gcp_metadata fileContent)) True)
              (getCommandOptions options)]
       \<and> (metadata.labels (gcp_metadata fileContent) \<noteq> [] \<longrightarrow>
            addLabelsIfNeeded (metadata.labels (gcp_metadata fileContent)) True =
              [''--labels='' @ join '','' (metadata.labels (gcp_metadata fileContent))])"
  using assms
  by (simp add: snd_deployFile reconcile_None snd_createSecret isSecretOp_def addLabelsIfNeeded_def
        split: sum.splits)

text \<open>C5 on the example when nothing exists remotely.\<close>

theorem create_only_when_absent_witness:
  "\<not> filteredOut nothingRemote exampleOptions ''db.json''
   \<and> exampleDisk ''db.json'' = Some dbEncrypted
   \<and> fst (decryptIfNeeded nothingRemote ''db.json'' dbEncrypted) = Inr ()
   \<and> find (\<lambda>secret. name secret = secretNameOf (getFileName nothingRemote ''db.json'')) [] = None
   \<and> filter isSecretOp (commands (snd (deployFile nothingRemote exampleOptions [] exampleDisk ''db.json''))) =
        [SecretsCreate ''db'' ''db.json'' [''--labels=a=1,b=2''] []]"
proof -
  have h1: "\<not> filteredOut nothingRemote exampleOptions ''db.json''" by code_simp
  have h3: "fst (decryptIfNeeded nothingRemote ''db.json'' dbEncrypted) = Inr ()" by code_simp
  have h4: "find (\<lambda>secret. name secret = secretNameOf (getFileName nothingRemote ''db.json'')) [] = None"
    by simp
  have e1: "secretNameOf (getFileName nothingRemote ''db.json'') = ''db''" by code_simp
  have e2: "addLabelsIfNeeded (metadata.labels (gcp_metadata dbEncrypted)) True = [''--labels=a=1,b=2'']"
    by code_simp
  from create_only_when_absent
         [of nothingRemote exampleOptions "''db.json''" exampleDisk dbEncrypted "[]", OF h1 ex_disk h3 h4]
  have "filter isSecretOp (commands (snd (deployFile nothingRemote exampleOptions [] exampleDisk ''db.json''))) =
        [SecretsCreate ''db'' ''db.json'' [''--labels=a=1,b=2''] []]"
    by (simp only: e1 e2 ex_options)
  with h1 ex_disk h3 h4 show ?thesis by blast
qed

subsection \<open>C6: a secret that exists remotely\<close>

text \<open>
  C6. For a reached file whose secret is in the remote listing, whatever the file
  holds: when the labels are the same the callback adds a version and updates no
  labels; when they differ it updates the labels first and then adds the version. No
  condition stands before the new version; it is not reached only when the update of
  the labels itself throws.
\<close>

theorem version_added_after_labels:
  assumes "\<not> filteredOut w options file"
    and "d file = Some fileContent"
    and "fst (decryptIfNeeded w file fileContent) = Inr ()"
    and "find (\<lambda>secret. name secret = secretNameOf (getFileName w file)) existingSecrets = Some secretExists"
  shows "filter (\<lambda>c. isUpdateLabels c \<or> isAddVersion c)
           (commands (snd (deployFile w options existingSecrets d file))) =
         (if existingLabels secretExists = metadata.labels (gcp_metadata fileContent)
          then [VersionsAdd (secretNameOf (getFileName w file)) file (getCommandOptions options)]
          else if isl (execStatus w
                  (SecretsUpdate (secretNameOf (getFileName w file))
                     (addLabelsIfNeeded (metadata.labels (gcp_metadata fileContent)) False)
                     (getCommandOptions options)))
          then [SecretsUpdate (secretNameOf (getFileName w file))
                  (addLabelsIfNeeded (metadata.labels (gcp_metadata fileContent)) False)
                  (getCommandOptions options)]
          else [SecretsUpdate (secretNameOf (getFileName w file))
                  (addLabelsIfNeeded (metadata.labels (gcp_metadata fileContent)) False)
                  (getCommandOptions options),
                VersionsAdd (secretNameOf (getFileName w file)) file (getCommandOptions options)])"
  using assms
  by (auto simp add: snd_deployFile reconcile_Some snd_updateSecret fst_updateSecret
        snd_updateLabels fst_updateLabels snd_retirePrevious no_labels_or_version_in_iam
        split: sum.splits)

text \<open>C6 on the example: the labels differ, they are updated and the version is added.\<close>

theorem version_added_after_labels_witness:
  "\<not> filteredOut exampleWorld exampleOptions ''db.json''
   \<and> exampleDisk ''db.json'' = Some dbEncrypted
   \<and> fst (decryptIfNeeded exampleWorld ''db.json'' dbEncrypted) = Inr ()
   \<and> find (\<lambda>secret. name secret = secretNameOf (getFileName exampleWorld ''db.json'')) [dbRemote] = Some dbRemote
   \<and> existingLabels dbRemote \<noteq> metadata.labels (gcp_metadata dbEncrypted)
   \<and> filter (\<lambda>c. isUpdateLabels c \<or> isAddVersion c)
         (commands (snd (deployFile exampleWorld exampleOptions [dbRemote] exampleDisk ''db.json''))) =
        [SecretsUpdate ''db'' [''--clear-labels'', ''--update-labels=a=1,b=2''] [],
         VersionsAdd ''db'' ''db.json'' []]"
proof -
  have l: "existingLabels dbRemote \<noteq> metadata.labels (gcp_metadata dbEncrypted)" by code_simp
  have u: "addLabelsIfNeeded (metadata.labels (gcp_metadata dbEncrypted)) False =
             [''--clear-labels'', ''--update-labels=a=1,b=2'']" by code_simp
  have s: "\<not> isl (execStatus exampleWorld
                  (SecretsUpdate ''db'' [''--clear-labels'', ''--update-labels=a=1,b=2''] []))" by code_simp
  from version_added_after_labels
         [of exampleWorld exampleOptions "''db.json''" exampleDisk dbEncrypted "[dbRemote]" dbRemote,
          OF ex_not_filtered ex_disk ex_decrypt ex_find]
  have "filter (\<lambda>c. isUpdateLabels c \<or> isAddVersion c)
         (commands (snd (deployFile exampleWorld exampleOptions [dbRemote] exampleDisk ''db.json''))) =
        [SecretsUpdate ''db'' [''--clear-labels'', ''--update-labels=a=1,b=2''] [],
         VersionsAdd ''db'' ''db.json'' []]"
    using l s by (simp only: ex_name ex_options u if_False)
  with ex_not_filtered ex_disk ex_decrypt ex_find l show ?thesis by blast
qed

subsection \<open>C7: the previous version\<close>

text \<open>
  C7. For a reached file whose secret exists remotely, when the update of the labels
  (if any) returned and \<^verbatim>\<open>gcloud secrets versions add\<close> returned a name, the callback
  reads the new version from the name and, by the field \<^verbatim>\<open>onUpdateBehavior\<close> of the
  file: absent (or empty) or \<^verbatim>\<open>destroy\<close>, it executes one retirement with
  \<^verbatim>\<open>destroy\<close>; \<^verbatim>\<open>disable\<close>, one retirement with \<^verbatim>\<open>disable\<close>; \<^verbatim>\<open>none\<close>, no
  retirement; in these three cases it logs no warning. Any other value is logged as a
  warning, nothing is retired, the secret is reconciled with success, and the callback
  returns \<^verbatim>\<open>true\<close> when the service accounts raise nothing. The version retired is the
  new version less one: when \<^verbatim>\<open>parseInt\<close> reads the integer \<open>N\<close> and \<open>N\<close> is a safe
  integer (at most $2^{53}$ in absolute value), it is \<open>N - 1\<close>.
\<close>

theorem previous_version_retired:
  assumes "\<not> filteredOut w options file"
    and "d file = Some fileContent"
    and "fst (decryptIfNeeded w file fileContent) = Inr ()"
    and "find (\<lambda>secret. name secret = secretNameOf (getFileName w file)) existingSecrets = Some secretExists"
    and "fst (updateLabels w options secretExists (secretNameOf (getFileName w file)) fileContent) = Inr ()"
    and "execVersion w (VersionsAdd (secretNameOf (getFileName w file)) file (getCommandOptions options)) = Inr nm"
  shows "(onUpdateBehavior (gcp_metadata fileContent) = None
            \<or> onUpdateBehavior (gcp_metadata fileContent) = Some []
            \<or> onUpdateBehavior (gcp_metadata fileContent) = Some ''destroy'' \<longrightarrow>
            filter isRetire (commands (snd (deployFile w options existingSecrets d file))) =
              [VersionsRetire ''destroy'' (minusOne (parseInt (last (split ''/versions/'' nm))))
                 (secretNameOf (getFileName w file)) (getCommandOptions options)]
            \<and> filter isWarning (snd (deployFile w options existingSecrets d file)) = [])
       \<and> (onUpdateBehavior (gcp_metadata fileContent) = Some ''disable'' \<longrightarrow>
            filter isRetire (commands (snd (deployFile w options existingSecrets d file))) =
              [VersionsRetire ''disable'' (minusOne (parseInt (last (split ''/versions/'' nm))))
                 (secretNameOf (getFileName w file)) (getCommandOptions options)]
            \<and> filter isWarning (snd (deployFile w options existingSecrets d file)) = [])
       \<and> (onUpdateBehavior (gcp_metadata fileContent) = Some ''none'' \<longrightarrow>
            filter isRetire (commands (snd (deployFile w options existingSecrets d file))) = []
            \<and> filter isWarning (snd (deployFile w options existingSecrets d file)) = [])
       \<and> (onUpdateBehavior (gcp_metadata fileContent) = Some b
            \<and> b \<noteq> [] \<and> b \<noteq> ''none'' \<and> b \<noteq> ''destroy'' \<and> b \<noteq> ''disable'' \<longrightarrow>
            filter isRetire (commands (snd (deployFile w options existingSecrets d file))) = []
            \<and> filter isWarning (snd (deployFile w options existingSecrets d file)) =
                 [Log (WarnInvalidBehavior b)]
            \<and> fst (reconcile w options existingSecrets (secretNameOf (getFileName w file))
                      (getFileName w file) file fileContent) = Inr True
            \<and> (fst (manageServiceAccounts w options (secretNameOf (getFileName w file)) fileContent) = Inr ()
                 \<longrightarrow> fst (deployFile w options existingSecrets d file) = Inr True))
       \<and> (parseInt (last (split ''/versions/'' nm)) = Finite N
            \<and> - 9007199254740992 < N \<and> N \<le> 9007199254740992 \<longrightarrow>
            minusOne (parseInt (last (split ''/versions/'' nm))) = Finite (N - 1))"
proof -
  let ?es = "snd (deployFile w options existingSecrets d file)"
  let ?n = "secretNameOf (getFileName w file)"
  let ?v = "last (split ''/versions/'' nm)"
  have ev: "?es = snd (decryptIfNeeded w file fileContent) @
      (snd (updateLabels w options secretExists ?n fileContent) @
       Exec (VersionsAdd ?n file (getCommandOptions options)) #
       snd (retirePrevious w options ?n fileContent ?v)) @
      (case fst (retirePrevious w options ?n fileContent ?v) of
         Inl e \<Rightarrow> []
       | Inr u \<Rightarrow> snd (storeEncryptedAgain file fileContent) @
                  snd (manageServiceAccounts w options ?n fileContent))"
    using assms
    by (simp add: snd_deployFile reconcile_Some snd_updateSecret fst_updateSecret split: sum.splits)
  have retire: "filter isRetire (commands ?es) =
      filter isRetire (commands (snd (retirePrevious w options ?n fileContent ?v)))"
    unfolding ev
    by (simp add: snd_updateLabels no_retire_in_iam split: sum.splits)
  have warn: "filter isWarning ?es =
      filter isWarning (snd (retirePrevious w options ?n fileContent ?v))"
    unfolding ev
    by (simp add: snd_updateLabels split: sum.splits)
  have 1: "onUpdateBehavior (gcp_metadata fileContent) = None
            \<or> onUpdateBehavior (gcp_metadata fileContent) = Some []
            \<or> onUpdateBehavior (gcp_metadata fileContent) = Some ''destroy'' \<longrightarrow>
            filter isRetire (commands ?es) =
              [VersionsRetire ''destroy'' (minusOne (parseInt ?v)) ?n (getCommandOptions options)]
            \<and> filter isWarning ?es = []"
    unfolding retire warn
    by (auto simp: snd_retirePrevious updateBehaviorOf_def truthy_def)
  have 2: "onUpdateBehavior (gcp_metadata fileContent) = Some ''disable'' \<longrightarrow>
            filter isRetire (commands ?es) =
              [VersionsRetire ''disable'' (minusOne (parseInt ?v)) ?n (getCommandOptions options)]
            \<and> filter isWarning ?es = []"
    unfolding retire warn
    by (auto simp: snd_retirePrevious updateBehaviorOf_def truthy_def)
  have 3: "onUpdateBehavior (gcp_metadata fileContent) = Some ''none'' \<longrightarrow>
            filter isRetire (commands ?es) = [] \<and> filter isWarning ?es = []"
    unfolding retire warn
    by (auto simp: snd_retirePrevious updateBehaviorOf_def truthy_def)
  have 4: "onUpdateBehavior (gcp_metadata fileContent) = Some b
            \<and> b \<noteq> [] \<and> b \<noteq> ''none'' \<and> b \<noteq> ''destroy'' \<and> b \<noteq> ''disable'' \<longrightarrow>
            filter isRetire (commands ?es) = []
            \<and> filter isWarning ?es = [Log (WarnInvalidBehavior b)]
            \<and> fst (reconcile w options existingSecrets ?n (getFileName w file) file fileContent) = Inr True
            \<and> (fst (manageServiceAccounts w options ?n fileContent) = Inr ()
                 \<longrightarrow> fst (deployFile w options existingSecrets d file) = Inr True)"
    unfolding retire warn
    using assms
    by (auto simp: snd_retirePrevious fst_retirePrevious updateBehaviorOf_def truthy_def
          fst_deployFile reconcile_Some fst_updateSecret)
  have 5: "parseInt ?v = Finite N \<and> - 9007199254740992 < N \<and> N \<le> 9007199254740992 \<longrightarrow>
            minusOne (parseInt ?v) = Finite (N - 1)"
    by (auto simp: toNumber_def)
  from 1 2 3 4 5 show ?thesis by blast
qed

text \<open>C7 on the example: \<^verbatim>\<open>db.json\<close> names no behaviour and version 7 is added, so
  version 6 is destroyed; \<^verbatim>\<open>api.json\<close> with \<^verbatim>\<open>disable\<close> has version 6 disabled, with
  \<^verbatim>\<open>none\<close> nothing retired and nothing logged, and with \<^verbatim>\<open>keep\<close> the warning logged,
  nothing retired and \<^verbatim>\<open>true\<close> returned.\<close>

theorem previous_version_retired_witness:
  "\<not> filteredOut exampleWorld exampleOptions ''db.json''
   \<and> exampleDisk ''db.json'' = Some dbEncrypted
   \<and> fst (decryptIfNeeded exampleWorld ''db.json'' dbEncrypted) = Inr ()
   \<and> find (\<lambda>secret. name secret = secretNameOf (getFileName exampleWorld ''db.json'')) [dbRemote] = Some dbRemote
   \<and> fst (updateLabels exampleWorld exampleOptions dbRemote ''db'' dbEncrypted) = Inr ()
   \<and> execVersion exampleWorld (VersionsAdd ''db'' ''db.json'' []) = Inr ''projects/1/secrets/db/versions/7''
   \<and> parseInt (last (split ''/versions/'' ''projects/1/secrets/db/versions/7'')) = Finite 7
   \<and> onUpdateBehavior (gcp_metadata dbEncrypted) = None
   \<and> filter isRetire
         (commands (snd (deployFile exampleWorld exampleOptions [dbRemote] exampleDisk ''db.json''))) =
        [VersionsRetire ''destroy'' (Finite 6) ''db'' []]
   \<and> onUpdateBehavior (gcp_metadata (apiWith ''disable'')) = Some ''disable''
   \<and> filter isRetire
         (commands (snd (deployFile exampleWorld exampleOptions [apiRemote] (apiDisk ''disable'') ''api.json''))) =
        [VersionsRetire ''disable'' (Finite 6) ''api'' []]
   \<and> onUpdateBehavior (gcp_metadata (apiWith ''none'')) = Some ''none''
   \<and> filter isRetire
         (commands (snd (deployFile exampleWorld exampleOptions [apiRemote] (apiDisk ''none'') ''api.json''))) = []
   \<and> filter isWarning (snd (deployFile exampleWorld exampleOptions [apiRemote] (apiDisk ''none'') ''api.json'')) = []
   \<and> onUpdateBehavior (gcp_metadata apiPlain) = Some ''keep''
   \<and> filter isWarning (snd (deployFile exampleWorld exampleOptions [apiRemote] twoFiles ''api.json'')) =
        [Log (WarnInvalidBehavior ''keep'')]
   \<and> fst (deployFile exampleWorld exampleOptions [apiRemote] twoFiles ''api.json'') = Inr True
   \<and> filter isRetire
         (commands (snd (deployFile exampleWorld exampleOptions [apiRemote] twoFiles ''api.json''))) = []"
proof -
  have n: "onUpdateBehavior (gcp_metadata dbEncrypted) = None" by code_simp
  have p: "parseInt (last (split ''/versions/'' ''projects/1/secrets/db/versions/7'')) = Finite 7"
    by code_simp
  have api_name: "secretNameOf (getFileName exampleWorld ''api.json'') = ''api''" by code_simp
  note db = previous_version_retired
         [of exampleWorld exampleOptions "''db.json''" exampleDisk dbEncrypted "[dbRemote]" dbRemote
             "''projects/1/secrets/db/versions/7''" _ 7,
          unfolded ex_name ex_options,
          OF ex_not_filtered ex_disk ex_decrypt ex_find [unfolded ex_name] ex_update ex_version]
  from db p have v: "minusOne (parseInt (last (split ''/versions/'' ''projects/1/secrets/db/versions/7''))) = Finite 6"
    by simp
  from db n have 1: "filter isRetire
         (commands (snd (deployFile exampleWorld exampleOptions [dbRemote] exampleDisk ''db.json''))) =
        [VersionsRetire ''destroy'' (Finite 6) ''db'' []]"
    by (simp add: v)
  have api_version: "execVersion exampleWorld (VersionsAdd ''api'' ''api.json'' [])
             = Inr ''projects/1/secrets/db/versions/7''" by code_simp
  have dd: "apiDisk ''disable'' ''api.json'' = Some (apiWith ''disable'')" by code_simp
  have dc: "fst (decryptIfNeeded exampleWorld ''api.json'' (apiWith ''disable'')) = Inr ()" by code_simp
  have du: "fst (updateLabels exampleWorld exampleOptions apiRemote ''api'' (apiWith ''disable'')) = Inr ()"
    by code_simp
  have db': "onUpdateBehavior (gcp_metadata (apiWith ''disable'')) = Some ''disable''" by code_simp
  from previous_version_retired
         [of exampleWorld exampleOptions "''api.json''" "apiDisk ''disable''" "apiWith ''disable''"
             "[apiRemote]" apiRemote "''projects/1/secrets/db/versions/7''",
          unfolded api_name ex_options,
          OF api_not_filtered dd dc api_find [unfolded api_name] du api_version] db'
  have 2: "filter isRetire
         (commands (snd (deployFile exampleWorld exampleOptions [apiRemote] (apiDisk ''disable'') ''api.json''))) =
        [VersionsRetire ''disable'' (Finite 6) ''api'' []]"
    by (simp add: v)
  have nd: "apiDisk ''none'' ''api.json'' = Some (apiWith ''none'')" by code_simp
  have nc: "fst (decryptIfNeeded exampleWorld ''api.json'' (apiWith ''none'')) = Inr ()" by code_simp
  have nu: "fst (updateLabels exampleWorld exampleOptions apiRemote ''api'' (apiWith ''none'')) = Inr ()"
    by code_simp
  have nb: "onUpdateBehavior (gcp_metadata (apiWith ''none'')) = Some ''none''" by code_simp
  from previous_version_retired
         [of exampleWorld exampleOptions "''api.json''" "apiDisk ''none''" "apiWith ''none''"
             "[apiRemote]" apiRemote "''projects/1/secrets/db/versions/7''",
          unfolded api_name ex_options,
          OF api_not_filtered nd nc api_find [unfolded api_name] nu api_version] nb
  have 3: "filter isRetire
         (commands (snd (deployFile exampleWorld exampleOptions [apiRemote] (apiDisk ''none'') ''api.json''))) = []
   \<and> filter isWarning (snd (deployFile exampleWorld exampleOptions [apiRemote] (apiDisk ''none'') ''api.json'')) = []"
    by simp
  have kb: "onUpdateBehavior (gcp_metadata apiPlain) = Some ''keep''" by code_simp
  have ku: "fst (updateLabels exampleWorld exampleOptions apiRemote ''api'' apiPlain) = Inr ()"
    by code_simp
  have km: "fst (manageServiceAccounts exampleWorld exampleOptions ''api'' apiPlain) = Inr ()"
    by code_simp
  from previous_version_retired
         [of exampleWorld exampleOptions "''api.json''" twoFiles apiPlain "[apiRemote]" apiRemote
             "''projects/1/secrets/db/versions/7''" "''keep''",
          unfolded api_name ex_options,
          OF api_not_filtered api_disk api_decrypt api_find [unfolded api_name] ku api_version] kb km
  have 4: "filter isWarning (snd (deployFile exampleWorld exampleOptions [apiRemote] twoFiles ''api.json'')) =
        [Log (WarnInvalidBehavior ''keep'')]
   \<and> fst (deployFile exampleWorld exampleOptions [apiRemote] twoFiles ''api.json'') = Inr True
   \<and> filter isRetire
         (commands (snd (deployFile exampleWorld exampleOptions [apiRemote] twoFiles ''api.json''))) = []"
    by simp
  from ex_not_filtered ex_disk ex_decrypt ex_find ex_update ex_version p n 1 db' 2 nb 3 kb 4
  show ?thesis by blast
qed

subsection \<open>C8: the service accounts\<close>

text \<open>
  C8 says that the callback revokes exactly the current members of the accessor role
  that are not declared. The source reads the members of one binding, the first of the
  policy with the accessor role (line 179). In the example whose policy has two
  bindings of that role, with \<^verbatim>\<open>Y\<close> and with \<^verbatim>\<open>Z\<close>, the file declares \<^verbatim>\<open>X\<close> and
  \<^verbatim>\<open>Y\<close>: \<^verbatim>\<open>X\<close> is granted, and \<^verbatim>\<open>Z\<close>, a member of the role that is not declared, is
  not revoked.
\<close>

theorem second_accessor_binding_is_ignored:
  "execPolicy twoBindings (GetIamPolicy ''db'' []) = Inr (Some twoBindingsPolicy)
   \<and> bindings twoBindingsPolicy =
        Some [\<lparr>members = [''Y''], role = ''roles/secretmanager.secretAccessor''\<rparr>,
              \<lparr>members = [''Z''], role = ''roles/secretmanager.secretAccessor''\<rparr>]
   \<and> serviceAccounts (gcp_metadata dbEncrypted) = Some [''X'', ''Y'']
   \<and> fst (deployFile twoBindings exampleOptions [dbRemote] exampleDisk ''db.json'') = Inr True
   \<and> filter isIam (commands (snd (deployFile twoBindings exampleOptions [dbRemote] exampleDisk ''db.json''))) =
        [GetIamPolicy ''db'' [], AddIamPolicyBinding ''db'' ''X'' []]"
  by code_simp

text \<open>
  C8, as amended. For a file that is not left out and is on disk: without a list
  \<^verbatim>\<open>serviceAccounts\<close> the callback executes no IAM command, the reading of the policy
  included. With such a list, when the callback returns and the policy was read, its
  IAM commands are the reading of the policy, then one grant for each account to add,
  then one revocation for each account to delete. The current accounts are the members
  of the first binding of the policy whose role is the accessor role, and none when the
  policy has no bindings or no such binding. The accounts to delete are, as a set, the
  current accounts less the declared ones, the accounts to add the declared ones less
  the current ones; so neither set depends on the order of the declared list or of the
  members.
\<close>

theorem bindings_follow_first_accessor_binding:
  assumes "\<not> filteredOut w options f"
    and "d f = Some fileContent"
  shows "(serviceAccounts (gcp_metadata fileContent) = None \<longrightarrow>
            filter isIam (commands (snd (deployFile w options existingSecrets d f))) = [])
       \<and> (serviceAccounts (gcp_metadata fileContent) = Some allowed
            \<and> fst (deployFile w options existingSecrets d f) = Inr success
            \<and> execPolicy w (GetIamPolicy (secretNameOf (getFileName w f)) (getCommandOptions options)) = Inr policy \<longrightarrow>
            filter isIam (commands (snd (deployFile w options existingSecrets d f))) =
              GetIamPolicy (secretNameOf (getFileName w f)) (getCommandOptions options) #
              map (\<lambda>m. AddIamPolicyBinding (secretNameOf (getFileName w f)) m (getCommandOptions options))
                (serviceAccountsToAdd allowed (existingServiceAccounts policy)) @
              map (\<lambda>m. RemoveIamPolicyBinding (secretNameOf (getFileName w f)) m (getCommandOptions options))
                (serviceAccountsToDelete allowed (existingServiceAccounts policy)))
       \<and> (bindings p = Some (pre @ b # post)
            \<and> role b = ''roles/secretmanager.secretAccessor''
            \<and> (\<forall>b'\<in>set pre. role b' \<noteq> ''roles/secretmanager.secretAccessor'') \<longrightarrow>
            existingServiceAccounts (Some p) = members b)
       \<and> (bindings p = Some bs \<and> (\<forall>b'\<in>set bs. role b' \<noteq> ''roles/secretmanager.secretAccessor'') \<longrightarrow>
            existingServiceAccounts (Some p) = [])
       \<and> (bindings p = None \<longrightarrow> existingServiceAccounts (Some p) = [])
       \<and> existingServiceAccounts None = []
       \<and> set (serviceAccountsToDelete allowed existing) = set existing - set allowed
       \<and> set (serviceAccountsToAdd allowed existing) = set allowed - set existing
       \<and> (set allowed' = set allowed \<and> set existing' = set existing \<longrightarrow>
            set (serviceAccountsToDelete allowed' existing') = set (serviceAccountsToDelete allowed existing)
          \<and> set (serviceAccountsToAdd allowed' existing') = set (serviceAccountsToAdd allowed existing))"
proof -
  let ?n = "secretNameOf (getFileName w f)"
  have 1: "serviceAccounts (gcp_metadata fileContent) = None \<longrightarrow>
            filter isIam (commands (snd (deployFile w options existingSecrets d f))) = []"
    using assms by (auto simp add: snd_deployFile manageServiceAccounts_None split: sum.splits)
  have 2: "serviceAccounts (gcp_metadata fileContent) = Some allowed
            \<and> fst (deployFile w options existingSecrets d f) = Inr success
            \<and> execPolicy w (GetIamPolicy ?n (getCommandOptions options)) = Inr policy \<longrightarrow>
            filter isIam (commands (snd (deployFile w options existingSecrets d f))) =
              GetIamPolicy ?n (getCommandOptions options) #
              map (\<lambda>m. AddIamPolicyBinding ?n m (getCommandOptions options))
                (serviceAccountsToAdd allowed (existingServiceAccounts policy)) @
              map (\<lambda>m. RemoveIamPolicyBinding ?n m (getCommandOptions options))
                (serviceAccountsToDelete allowed (existingServiceAccounts policy))"
  proof (intro impI, elim conjE)
    assume s: "serviceAccounts (gcp_metadata fileContent) = Some allowed"
      and r: "fst (deployFile w options existingSecrets d f) = Inr success"
      and p: "execPolicy w (GetIamPolicy ?n (getCommandOptions options)) = Inr policy"
    from iam_deployFile [OF assms r]
    have a: "filter isIam (commands (snd (deployFile w options existingSecrets d f))) =
           commands (snd (manageServiceAccounts w options ?n fileContent))"
      and b: "fst (manageServiceAccounts w options ?n fileContent) = Inr ()"
      by blast+
    show "filter isIam (commands (snd (deployFile w options existingSecrets d f))) =
              GetIamPolicy ?n (getCommandOptions options) #
              map (\<lambda>m. AddIamPolicyBinding ?n m (getCommandOptions options))
                (serviceAccountsToAdd allowed (existingServiceAccounts policy)) @
              map (\<lambda>m. RemoveIamPolicyBinding ?n m (getCommandOptions options))
                (serviceAccountsToDelete allowed (existingServiceAccounts policy))"
      unfolding a by (rule commands_manageServiceAccounts [OF s p b])
  qed
  have 3: "bindings p = Some (pre @ b # post)
            \<and> role b = ''roles/secretmanager.secretAccessor''
            \<and> (\<forall>b'\<in>set pre. role b' \<noteq> ''roles/secretmanager.secretAccessor'') \<longrightarrow>
            existingServiceAccounts (Some p) = members b"
    using existingServiceAccounts_first by blast
  have 4: "bindings p = Some bs \<and> (\<forall>b'\<in>set bs. role b' \<noteq> ''roles/secretmanager.secretAccessor'') \<longrightarrow>
            existingServiceAccounts (Some p) = []"
    using existingServiceAccounts_none by blast
  have 5: "bindings p = None \<longrightarrow> existingServiceAccounts (Some p) = []"
    "existingServiceAccounts None = []"
    by (simp_all add: existingServiceAccounts_def)
  have 6: "set (serviceAccountsToDelete allowed existing) = set existing - set allowed"
    "set (serviceAccountsToAdd allowed existing) = set allowed - set existing"
    "set allowed' = set allowed \<and> set existing' = set existing \<longrightarrow>
        set (serviceAccountsToDelete allowed' existing') = set (serviceAccountsToDelete allowed existing)
      \<and> set (serviceAccountsToAdd allowed' existing') = set (serviceAccountsToAdd allowed existing)"
    by (auto simp: serviceAccountsToDelete_def serviceAccountsToAdd_def)
  from 1 2 3 4 5 6 show ?thesis by blast
qed

text \<open>The amended C8 on the example: declared \<^verbatim>\<open>X\<close>, \<^verbatim>\<open>Y\<close>; with one binding of
  \<^verbatim>\<open>Y\<close>, \<^verbatim>\<open>Z\<close> the callback grants \<^verbatim>\<open>X\<close> and revokes \<^verbatim>\<open>Z\<close>; with the two bindings
  the current accounts are those of the first, \<^verbatim>\<open>Y\<close>; the sets are the same for the
  lists in another order; \<^verbatim>\<open>api.json\<close> declares no service accounts and causes no IAM
  command.\<close>

theorem bindings_follow_first_accessor_binding_witness:
  "\<not> filteredOut exampleWorld exampleOptions ''db.json''
   \<and> exampleDisk ''db.json'' = Some dbEncrypted
   \<and> serviceAccounts (gcp_metadata dbEncrypted) = Some [''X'', ''Y'']
   \<and> fst (deployFile exampleWorld exampleOptions [dbRemote] exampleDisk ''db.json'') = Inr True
   \<and> execPolicy exampleWorld (GetIamPolicy ''db'' []) = Inr (Some dbPolicy)
   \<and> existingServiceAccounts (Some dbPolicy) = [''Y'', ''Z'']
   \<and> filter isIam (commands (snd (deployFile exampleWorld exampleOptions [dbRemote] exampleDisk ''db.json''))) =
        [GetIamPolicy ''db'' [], AddIamPolicyBinding ''db'' ''X'' [], RemoveIamPolicyBinding ''db'' ''Z'' []]
   \<and> existingServiceAccounts (Some twoBindingsPolicy) = [''Y'']
   \<and> set (serviceAccountsToAdd [''Y'', ''X''] [''Z'', ''Y'']) = {''X''}
   \<and> set (serviceAccountsToDelete [''Y'', ''X''] [''Z'', ''Y'']) = {''Z''}
   \<and> \<not> filteredOut exampleWorld exampleOptions ''api.json''
   \<and> twoFiles ''api.json'' = Some apiPlain
   \<and> serviceAccounts (gcp_metadata apiPlain) = None
   \<and> filter isIam (commands (snd (deployFile exampleWorld exampleOptions [apiRemote] twoFiles ''api.json''))) = []"
proof -
  have s: "serviceAccounts (gcp_metadata dbEncrypted) = Some [''X'', ''Y'']" by code_simp
  have r: "fst (deployFile exampleWorld exampleOptions [dbRemote] exampleDisk ''db.json'') = Inr True"
    by code_simp
  have p: "execPolicy exampleWorld (GetIamPolicy ''db'' []) = Inr (Some dbPolicy)"
    by code_simp
  have x: "existingServiceAccounts (Some dbPolicy) = [''Y'', ''Z'']" by code_simp
  have a: "serviceAccountsToAdd [''X'', ''Y''] [''Y'', ''Z''] = [''X'']" by code_simp
  have rm: "serviceAccountsToDelete [''X'', ''Y''] [''Y'', ''Z''] = [''Z'']" by code_simp
  have n: "serviceAccounts (gcp_metadata apiPlain) = None" by code_simp
  have o1: "set [''Y'', ''X''] = set [''X'', ''Y'']" and o2: "set [''Z'', ''Y''] = set [''Y'', ''Z'']"
    by auto
  have tb: "bindings twoBindingsPolicy =
      Some ([] @ \<lparr>members = [''Y''], role = ''roles/secretmanager.secretAccessor''\<rparr> #
                 [\<lparr>members = [''Z''], role = ''roles/secretmanager.secretAccessor''\<rparr>])"
    by (simp add: twoBindingsPolicy_def)
  note t = bindings_follow_first_accessor_binding
         [where w = exampleWorld and options = exampleOptions and f = "''db.json''" and d = exampleDisk
            and fileContent = dbEncrypted and existingSecrets = "[dbRemote]"
            and allowed = "[''X'', ''Y'']" and success = True and policy = "Some dbPolicy"
            and existing = "[''Y'', ''Z'']" and allowed' = "[''Y'', ''X'']" and existing' = "[''Z'', ''Y'']"
            and p = twoBindingsPolicy and pre = "[]"
            and b = "\<lparr>members = [''Y''], role = ''roles/secretmanager.secretAccessor''\<rparr>"
            and post = "[\<lparr>members = [''Z''], role = ''roles/secretmanager.secretAccessor''\<rparr>]",
          unfolded ex_name ex_options,
          OF ex_not_filtered ex_disk]
  from t s r p
  have 1: "filter isIam (commands (snd (deployFile exampleWorld exampleOptions [dbRemote] exampleDisk ''db.json''))) =
        [GetIamPolicy ''db'' [], AddIamPolicyBinding ''db'' ''X'' [], RemoveIamPolicyBinding ''db'' ''Z'' []]"
    by (simp add: x a rm)
  from t tb have 2: "existingServiceAccounts (Some twoBindingsPolicy) = [''Y'']"
    by simp
  from t o1 o2
  have 3: "set (serviceAccountsToAdd [''Y'', ''X''] [''Z'', ''Y'']) = {''X''}"
    and 4: "set (serviceAccountsToDelete [''Y'', ''X''] [''Z'', ''Y'']) = {''Z''}"
    by (simp_all add: a rm)
  from bindings_follow_first_accessor_binding
         [where w = exampleWorld and options = exampleOptions and f = "''api.json''" and d = twoFiles
            and fileContent = apiPlain and existingSecrets = "[apiRemote]",
          OF api_not_filtered api_disk] n
  have 5: "filter isIam (commands (snd (deployFile exampleWorld exampleOptions [apiRemote] twoFiles ''api.json''))) = []"
    by simp
  from ex_not_filtered ex_disk s r p x 1 2 3 4 api_not_filtered api_disk n 5 show ?thesis by blast
qed

subsection \<open>C9: the success of the run\<close>

text \<open>
  C9. With the encryption key set and the listing and the enumeration of the files
  returned, the run reports success exactly when the callback of every file returned
  \<^verbatim>\<open>true\<close>. A file that the option \<^verbatim>\<open>secret\<close> leaves out returns \<^verbatim>\<open>true\<close> and does
  nothing. When the option leaves out every file, the run reports success and its only
  command is the listing at its start.
\<close>

theorem success_is_conjunction:
  assumes "isEncryptionKeySet w"
    and "fst (listSecrets w options) = Inr existingSecrets"
    and "getAllSecretFiles w sourceRoot = Inr files"
  shows "fst (deployExecutor w options sourceRoot d) =
           (\<forall>r\<in>set (fst (mapFiles w options existingSecrets d files)). r = Inr True)
       \<and> (\<forall>file d'. filteredOut w options file \<longrightarrow>
             deployFile w options existingSecrets d' file = (Inr True, []))
       \<and> ((\<forall>file\<in>set files. filteredOut w options file) \<longrightarrow>
             deployExecutor w options sourceRoot d =
               (True, [Exec (SecretsList (getCommandOptions options))]))"
proof -
  let ?rs = "fst (mapFiles w options existingSecrets d files)"
  have 1: "fst (deployExecutor w options sourceRoot d) = (\<forall>r\<in>set ?rs. r = Inr True)"
  proof (cases "promiseAll ?rs")
    case (Inl e)
    then have "Inl e \<in> set ?rs" by (rule promiseAll_Inl)
    then have "\<not> (\<forall>r\<in>set ?rs. r = Inr True)" by auto
    moreover have "fst (deployExecutor w options sourceRoot d) = False"
      using assms Inl by (simp add: deployExecutor_def deployAll_files)
    ultimately show ?thesis by simp
  next
    case (Inr bs)
    then have rs: "?rs = map Inr bs" by (rule promiseAll_Inr)
    then have len: "length bs = length files"
      by (metis length_map length_mapFiles)
    have "fst (deployExecutor w options sourceRoot d) = (length (filter (\<lambda>b. b) bs) = length bs)"
      using assms Inr len by (simp add: deployExecutor_def deployAll_files)
    also have "\<dots> = (\<forall>b\<in>set bs. b)" by (rule all_counted)
    also have "\<dots> = (\<forall>r\<in>set ?rs. r = Inr True)" by (auto simp: rs)
    finally show ?thesis .
  qed
  have 2: "\<forall>file d'. filteredOut w options file \<longrightarrow>
             deployFile w options existingSecrets d' file = (Inr True, [])"
    by (simp add: deployFile_filteredOut)
  have 3: "(\<forall>file\<in>set files. filteredOut w options file) \<longrightarrow>
             deployExecutor w options sourceRoot d =
               (True, [Exec (SecretsList (getCommandOptions options))])"
  proof
    assume a: "\<forall>file\<in>set files. filteredOut w options file"
    have m: "mapFiles w options existingSecrets d files = (map (\<lambda>f. Inr True) files, [])"
      using a by (rule mapFiles_all_filteredOut)
    have p: "promiseAll (map (\<lambda>f. Inr True) files) = Inr (map (\<lambda>f. True) files)"
      by (auto simp: promiseAll_def find_None_iff split: option.splits)
    show "deployExecutor w options sourceRoot d =
               (True, [Exec (SecretsList (getCommandOptions options))])"
      using assms by (simp add: deployExecutor_def deployAll_files m p)
  qed
  from 1 2 3 show ?thesis by blast
qed

text \<open>C9 on the example: the run without the option succeeds with its one callback;
  with the option naming a secret that no file declares, it succeeds and only lists.\<close>

theorem success_is_conjunction_witness:
  "isEncryptionKeySet exampleWorld
   \<and> fst (listSecrets exampleWorld exampleOptions) = Inr [dbRemote]
   \<and> fst (listSecrets exampleWorld otherSecretOnly) = Inr [dbRemote]
   \<and> getAllSecretFiles exampleWorld ''src'' = Inr [''db.json'']
   \<and> fst (mapFiles exampleWorld exampleOptions [dbRemote] exampleDisk [''db.json'']) = [Inr True]
   \<and> fst (deployExecutor exampleWorld exampleOptions ''src'' exampleDisk) = True
   \<and> filteredOut exampleWorld otherSecretOnly ''db.json''
   \<and> deployExecutor exampleWorld otherSecretOnly ''src'' exampleDisk = (True, [Exec (SecretsList [])])"
proof -
  have l: "fst (listSecrets exampleWorld otherSecretOnly) = Inr [dbRemote]" by code_simp
  have m: "fst (mapFiles exampleWorld exampleOptions [dbRemote] exampleDisk [''db.json'']) = [Inr True]"
    by code_simp
  have f: "filteredOut exampleWorld otherSecretOnly ''db.json''" by code_simp
  have o: "getCommandOptions otherSecretOnly = []" by code_simp
  from success_is_conjunction
         [of exampleWorld exampleOptions "[dbRemote]" "''src''" "[''db.json'']" exampleDisk,
          OF ex_key ex_listing ex_files]
  have 1: "fst (deployExecutor exampleWorld exampleOptions ''src'' exampleDisk) = True"
    by (simp only: m) simp
  from success_is_conjunction
         [of exampleWorld otherSecretOnly "[dbRemote]" "''src''" "[''db.json'']" exampleDisk,
          OF ex_key l ex_files] f
  have 2: "deployExecutor exampleWorld otherSecretOnly ''src'' exampleDisk = (True, [Exec (SecretsList [])])"
    by (simp add: o)
  from ex_key ex_listing l ex_files m 1 f 2 show ?thesis by blast
qed

subsection \<open>C10: what is written back, and when\<close>

text \<open>
  C10. For a file that is not left out and is on disk: when it is encrypted and its
  callback returns without an exception, the callback writes the content it read at
  its start back to the file, no IAM command comes before that write and no write
  after it, every IAM command of the callback comes after it, and at the end the file
  holds the content read at the start. When the file is not encrypted, the callback
  never writes it, however it ends.
\<close>

theorem encrypted_content_restored:
  assumes "\<not> filteredOut w options file"
    and "d file = Some fileContent"
  shows "(isFileEncrypted fileContent \<and> fst (deployFile w options existingSecrets d file) = Inr success \<longrightarrow>
            (\<exists>pre post. snd (deployFile w options existingSecrets d file) = pre @ StoreFile file fileContent # post
                \<and> filter isIam (commands pre) = []
                \<and> stores post = []
                \<and> filter isIam (commands post) = commands post
                \<and> filter isIam (commands (snd (deployFile w options existingSecrets d file))) = commands post)
            \<and> applyEvents (snd (deployFile w options existingSecrets d file)) d file = Some fileContent)
       \<and> (\<not> isFileEncrypted fileContent \<longrightarrow>
            stores (snd (deployFile w options existingSecrets d file)) = [])"
proof -
  let ?n = "secretNameOf (getFileName w file)"
  let ?dec = "snd (decryptIfNeeded w file fileContent)"
  let ?rec = "snd (reconcile w options existingSecrets ?n (getFileName w file) file fileContent)"
  let ?iam = "snd (manageServiceAccounts w options ?n fileContent)"
  have plain: "\<not> isFileEncrypted fileContent \<longrightarrow>
            stores (snd (deployFile w options existingSecrets d file)) = []"
    using assms
    by (simp add: snd_deployFile snd_decryptIfNeeded snd_storeEncryptedAgain split: sum.splits)
  have enc: "(\<exists>pre post. snd (deployFile w options existingSecrets d file) = pre @ StoreFile file fileContent # post
                \<and> filter isIam (commands pre) = []
                \<and> stores post = []
                \<and> filter isIam (commands post) = commands post
                \<and> filter isIam (commands (snd (deployFile w options existingSecrets d file))) = commands post)
            \<and> applyEvents (snd (deployFile w options existingSecrets d file)) d file = Some fileContent"
    if e: "isFileEncrypted fileContent" and r: "fst (deployFile w options existingSecrets d file) = Inr success"
  proof -
    from r assms have d1: "fst (decryptIfNeeded w file fileContent) = Inr ()"
      by (cases "fst (decryptIfNeeded w file fileContent)") (auto simp: fst_deployFile)
    from r assms d1 obtain s where r1:
      "fst (reconcile w options existingSecrets ?n (getFileName w file) file fileContent) = Inr s"
      by (cases "fst (reconcile w options existingSecrets ?n (getFileName w file) file fileContent)")
         (auto simp: fst_deployFile)
    have ev: "snd (deployFile w options existingSecrets d file) =
        (?dec @ ?rec) @ StoreFile file fileContent # ?iam"
      using assms d1 r1 e by (simp add: snd_deployFile snd_storeEncryptedAgain)
    have iamall: "filter isIam (commands ?iam) = commands ?iam"
      using manageServiceAccounts_commands by (simp add: filter_id_conv)
    have pre: "filter isIam (commands (?dec @ ?rec)) = []" by simp
    have post: "stores ?iam = []" by simp
    have tot: "filter isIam (commands (snd (deployFile w options existingSecrets d file))) = commands ?iam"
      unfolding ev using iamall by simp
    have "applyEvents (snd (deployFile w options existingSecrets d file)) d =
        applyEvents ?iam ((applyEvents (?dec @ ?rec) d)(file \<mapsto> fileContent))"
      unfolding ev by (simp add: applyEvents_def)
    also have "\<dots> = (applyEvents (?dec @ ?rec) d)(file \<mapsto> fileContent)"
      using post by (rule applyEvents_no_stores)
    finally have disk: "applyEvents (snd (deployFile w options existingSecrets d file)) d file = Some fileContent"
      by simp
    from ev pre post iamall tot disk show ?thesis by blast
  qed
  from plain enc show ?thesis by blast
qed

text \<open>C10 on the example: after the callback of the encrypted \<^verbatim>\<open>db.json\<close> the file holds
  its encrypted content; the callback of the plain \<^verbatim>\<open>api.json\<close> writes nothing.\<close>

theorem encrypted_content_restored_witness:
  "\<not> filteredOut exampleWorld exampleOptions ''db.json''
   \<and> exampleDisk ''db.json'' = Some dbEncrypted
   \<and> isFileEncrypted dbEncrypted
   \<and> fst (deployFile exampleWorld exampleOptions [dbRemote] exampleDisk ''db.json'') = Inr True
   \<and> applyEvents (snd (deployFile exampleWorld exampleOptions [dbRemote] exampleDisk ''db.json''))
        exampleDisk ''db.json'' = Some dbEncrypted
   \<and> \<not> filteredOut exampleWorld exampleOptions ''api.json''
   \<and> twoFiles ''api.json'' = Some apiPlain
   \<and> \<not> isFileEncrypted apiPlain
   \<and> stores (snd (deployFile exampleWorld exampleOptions [apiRemote] twoFiles ''api.json'')) = []"
proof -
  have e: "isFileEncrypted dbEncrypted" by code_simp
  have r: "fst (deployFile exampleWorld exampleOptions [dbRemote] exampleDisk ''db.json'') = Inr True"
    by code_simp
  have p: "\<not> isFileEncrypted apiPlain" by code_simp
  from encrypted_content_restored
         [of exampleWorld exampleOptions "''db.json''" exampleDisk dbEncrypted "[dbRemote]" True,
          OF ex_not_filtered ex_disk] e r
  have 1: "applyEvents (snd (deployFile exampleWorld exampleOptions [dbRemote] exampleDisk ''db.json''))
        exampleDisk ''db.json'' = Some dbEncrypted"
    by blast
  from encrypted_content_restored
         [of exampleWorld exampleOptions "''api.json''" twoFiles apiPlain "[apiRemote]" True,
          OF api_not_filtered api_disk] p
  have 2: "stores (snd (deployFile exampleWorld exampleOptions [apiRemote] twoFiles ''api.json'')) = []"
    by blast
  from ex_not_filtered ex_disk e r 1 api_not_filtered api_disk p 2 show ?thesis by blast
qed

end
